theory Spec2Isabelle
  imports Main
begin

section \<open>The create-container interceptor of the weave proxy\<close>

text \<open>
  A shallow embedding of \<^verbatim>\<open>proxy/create_container_interceptor.go\<close>. The functions of
  the file are HOL functions of the same names. What the Go code reads from its surroundings
  (the fields of the proxy, the docker client, the HTTP client, the constants of other
  packages) is collected in one record, \<open>proxy\<close>, that every function takes as its first
  argument.
\<close>

subsection \<open>Go values\<close>

text \<open>
  A Go slice of strings is either \<^verbatim>\<open>nil\<close> or a sequence of elements; the two empty slices
  (\<^verbatim>\<open>nil\<close> and \<^verbatim>\<open>[]string{}\<close>) have length 0 and differ under \<^verbatim>\<open>== nil\<close>.
\<close>

type_synonym slice = "string list option"

definition elems :: "slice \<Rightarrow> string list" where
  "elems s = (case s of None \<Rightarrow> [] | Some xs \<Rightarrow> xs)"

definition len :: "slice \<Rightarrow> nat" where
  "len s = length (elems s)"

text \<open>\<^verbatim>\<open>append(s, ys...)\<close>: appending nothing returns \<open>s\<close> itself, so \<^verbatim>\<open>nil\<close> stays \<^verbatim>\<open>nil\<close>.\<close>

definition go_append :: "slice \<Rightarrow> string list \<Rightarrow> slice" where
  "go_append s ys = (if ys = [] then s else Some (elems s @ ys))"

text \<open>
  \<^verbatim>\<open>strings.Split(s, sep)\<close> for a one-byte separator: the pieces between the separators,
  one more than there are separators (so one empty piece for the empty string).
\<close>

fun strings_Split :: "string \<Rightarrow> char \<Rightarrow> string list" where
  "strings_Split [] sep = [[]]"
| "strings_Split (x # xs) sep =
     (if x = sep then [] # strings_Split xs sep
      else (case strings_Split xs sep of
              [] \<Rightarrow> [[x]]
            | w # ws \<Rightarrow> (x # w) # ws))"

text \<open>\<^verbatim>\<open>strings.TrimSuffix(s, suffix)\<close>\<close>

definition strings_HasSuffix :: "string \<Rightarrow> string \<Rightarrow> bool" where
  "strings_HasSuffix s suffix =
     (length s \<ge> length suffix \<and> drop (length s - length suffix) s = suffix)"

definition strings_TrimSuffix :: "string \<Rightarrow> string \<Rightarrow> string" where
  "strings_TrimSuffix s suffix =
     (if strings_HasSuffix s suffix then take (length s - length suffix) s else s)"

text \<open>\<^verbatim>\<open>strings.Join(a, sep)\<close>\<close>

fun strings_Join :: "string list \<Rightarrow> string \<Rightarrow> string" where
  "strings_Join [] sep = []"
| "strings_Join [x] sep = x"
| "strings_Join (x # y # ys) sep = x @ sep @ strings_Join (y # ys) sep"

subsection \<open>The data of a request\<close>

text \<open>
  \<^verbatim>\<open>docker.Config\<close> and \<^verbatim>\<open>docker.HostConfig\<close> are declared by the docker client library.
  The records name the fields this file reads or writes; every other field of the two
  structs lives in the extension slot of the record (the type variable of
  \<open>'c docker_Config_scheme\<close>), which no function below looks into.
\<close>

record docker_Config =
  Hostname :: string
  Domainname :: string
  Cmd :: slice
  Image :: string
  Entrypoint :: slice

record docker_HostConfig =
  Binds :: slice
  DNS :: slice
  DNSSearch :: slice

text \<open>
  \<^verbatim>\<open>createContainerRequestBody\<close>: the embedded \<^verbatim>\<open>*docker.Config\<close> and the \<^verbatim>\<open>*docker.HostConfig\<close>
  are pointers, \<open>None\<close> is \<^verbatim>\<open>nil\<close>.
\<close>

record ('c, 'h) createContainerRequestBody =
  Config :: "'c docker_Config_scheme option"
  HostConfig :: "'h docker_HostConfig_scheme option"
  MacAddress :: string

subsection \<open>Errors and log lines\<close>

text \<open>
  The errors the docker client returns: its sentinel \<^verbatim>\<open>docker.ErrNoSuchImage\<close>, or any other
  error value, kept by its message.
\<close>

datatype docker_error = docker_ErrNoSuchImage | docker_OtherError string

text \<open>
  What a function of this file hands to its caller instead of a result:
  \<^verbatim>\<open>ErrNoCommandSpecified\<close> (line 20), \<^verbatim>\<open>&ErrNoSuchImage{Name}\<close> (lines 34-36), an error of
  the docker client passed on as it is, an error of \<^verbatim>\<open>ioutil.ReadAll\<close> or of
  \<^verbatim>\<open>encoding/json\<close> (kept by its message), or a run-time panic (a nil dereference, an
  index out of range), which returns nothing at all.
\<close>

datatype error =
    ErrNoCommandSpecified
  | ErrNoSuchImage string
  | ClientError docker_error
  | ReadError string
  | JSONError string
  | Panic

text \<open>The two loggers, \<^verbatim>\<open>Info.Printf\<close> and \<^verbatim>\<open>Warning.Printf\<close>, with the formatted line.\<close>

datatype log_line = Info string | Warning string

subsection \<open>JSON documents\<close>

text \<open>
  A JSON document as \<^verbatim>\<open>encoding/json\<close> sees it once the bytes are scanned: the members of
  an object in the order of the text, a number by its literal.
\<close>

datatype json =
    JNull
  | JBool bool
  | JNumber string
  | JString string
  | JArray "json list"
  | JObject "(string \<times> json) list"

subsection \<open>The surroundings of the interceptor\<close>

text \<open>
  \<^verbatim>\<open>docker.Image\<close>, as far as it is read: the pointer \<^verbatim>\<open>image.Config\<close> (\<open>None\<close> is \<^verbatim>\<open>nil\<close>:
  the engine's answer has no \<^verbatim>\<open>Config\<close>) and, of the \<^verbatim>\<open>docker.Config\<close> it points to,
  \<^verbatim>\<open>Cmd\<close> and \<^verbatim>\<open>Entrypoint\<close>.
\<close>

record docker_Image_Config =
  image_Cmd :: slice
  image_Entrypoint :: slice

record docker_Image =
  image_Config :: "docker_Image_Config option"

text \<open>
  \<^verbatim>\<open>docker.Container\<close>, as far as it is read: the pointer \<^verbatim>\<open>NetworkSettings\<close> and its
  \<^verbatim>\<open>IPAddress\<close>.
\<close>

record docker_NetworkSettings =
  IPAddress :: string

record docker_Container =
  NetworkSettings :: "docker_NetworkSettings option"

text \<open>
  \<^verbatim>\<open>http.Response\<close>, as far as it is read: the status code and what
  \<^verbatim>\<open>ioutil.ReadAll(resp.Body)\<close> yields (\<open>Inl\<close> its error).
\<close>

record http_Response =
  StatusCode :: int
  resp_Body :: "string + string"

text \<open>
  Everything the file takes from outside itself.
  \<^item> The fields of \<^verbatim>\<open>Proxy\<close>: \<open>WithoutDNS\<close>, \<open>WithDNS\<close>, \<open>weaveWaitVolume\<close>,
    \<open>dockerBridgeIP\<close>; its method \<open>weaveCIDRsFromConfig\<close>, whose error is only ever
    formatted with \<^verbatim>\<open>%s\<close> and so is kept by its message; its docker client, with
    \<open>InspectImage\<close> and \<open>InspectContainer\<close>.
  \<^item> The package variable \<open>weaveWaitEntrypoint\<close> and the constants
    \<open>DefaultLocalDomain\<close> and \<open>DefaultHTTPPort\<close> of package \<^verbatim>\<open>nameserver\<close>, all declared in
    other files.
  \<^item> \<open>http_Get\<close>: \<^verbatim>\<open>http.Get\<close>, \<open>None\<close> when it returns an error.
  \<^item> \<^verbatim>\<open>encoding/json\<close>, as far as it depends on things this file does not show:
    \<open>json_scan\<close> and \<open>json_print\<close> go between bytes and documents; \<open>config_store\<close>
    decodes one member of an object into the field of \<^verbatim>\<open>docker.Config\<close> it names
    (\<open>None\<close> when \<^verbatim>\<open>docker.Config\<close> has no such field) and \<open>config_members\<close> encodes the
    fields of a \<^verbatim>\<open>docker.Config\<close>; \<open>hostConfig_load\<close> decodes a document into an existing
    \<^verbatim>\<open>docker.HostConfig\<close> and \<open>hostConfig_dump\<close> encodes one.
  \<^item> \<open>config_rest0\<close> and \<open>hostConfig_rest0\<close>: the zero values of the fields the records
    do not name, for \<^verbatim>\<open>&docker.Config{}\<close> and \<^verbatim>\<open>&docker.HostConfig{}\<close>.
\<close>

record ('c, 'h) proxy =
  WithoutDNS :: bool
  WithDNS :: bool
  weaveWaitVolume :: string
  dockerBridgeIP :: string
  weaveCIDRsFromConfig ::
    "'c docker_Config_scheme option \<Rightarrow> 'h docker_HostConfig_scheme option
       \<Rightarrow> string + string list"
  InspectImage :: "string \<Rightarrow> docker_error + docker_Image"
  InspectContainer :: "string \<Rightarrow> docker_error + docker_Container"
  weaveWaitEntrypoint :: slice
  DefaultLocalDomain :: string
  DefaultHTTPPort :: int
  http_Get :: "string \<Rightarrow> http_Response option"
  json_scan :: "string \<Rightarrow> string + json"
  json_print :: "json \<Rightarrow> string"
  config_store ::
    "string \<Rightarrow> json \<Rightarrow> 'c docker_Config_scheme
       \<Rightarrow> (string + 'c docker_Config_scheme) option"
  config_members :: "'c docker_Config_scheme \<Rightarrow> string + (string \<times> json) list"
  hostConfig_load ::
    "json \<Rightarrow> 'h docker_HostConfig_scheme \<Rightarrow> string + 'h docker_HostConfig_scheme"
  hostConfig_dump :: "'h docker_HostConfig_scheme \<Rightarrow> string + json"
  config_rest0 :: 'c
  hostConfig_rest0 :: 'h

definition MaxDockerHostname :: nat where
  "MaxDockerHostname = 64"

text \<open>\<^verbatim>\<open>&docker.Config{}\<close> and \<^verbatim>\<open>&docker.HostConfig{}\<close>: every field at its zero value.\<close>

definition new_Config :: "('c, 'h) proxy \<Rightarrow> 'c docker_Config_scheme" where
  "new_Config P =
     \<lparr>Hostname = [], Domainname = [], Cmd = None, Image = [], Entrypoint = None,
      \<dots> = config_rest0 P\<rparr>"

definition new_HostConfig :: "('c, 'h) proxy \<Rightarrow> 'h docker_HostConfig_scheme" where
  "new_HostConfig P = \<lparr>Binds = None, DNS = None, DNSSearch = None, \<dots> = hostConfig_rest0 P\<rparr>"

subsection \<open>addWeaveWaitVolume (lines 83-93)\<close>

text \<open>The test of lines 86-87: the second piece between colons is \<^verbatim>\<open>/w\<close>.\<close>

definition mounts_w :: "string \<Rightarrow> bool" where
  "mounts_w bind =
     (let s = strings_Split bind (CHR '':'')
      in length s \<ge> 2 \<and> s ! 1 = ''/w'')"

text \<open>The loop of lines 85-91, from \<open>binds\<close> collected so far over the entries left.\<close>

fun addWeaveWaitVolume_loop :: "slice \<Rightarrow> string list \<Rightarrow> slice" where
  "addWeaveWaitVolume_loop binds [] = binds"
| "addWeaveWaitVolume_loop binds (bind # rest) =
     (if mounts_w bind then addWeaveWaitVolume_loop binds rest
      else addWeaveWaitVolume_loop (go_append binds [bind]) rest)"

definition addWeaveWaitVolume ::
  "('c, 'h) proxy \<Rightarrow> 'h docker_HostConfig_scheme \<Rightarrow> 'h docker_HostConfig_scheme" where
  "addWeaveWaitVolume P hostConfig =
     (let binds = addWeaveWaitVolume_loop None (elems (Binds hostConfig))
      in hostConfig\<lparr>Binds := go_append binds [weaveWaitVolume P @ '':/w:ro'']\<rparr>)"

subsection \<open>setWeaveWaitEntrypoint (lines 95-122)\<close>

text \<open>
  Lines 96-111: when the entrypoint is empty the image is inspected and supplies the
  command, if that is empty, and the entrypoint, if that is \<^verbatim>\<open>nil\<close>. Both are read
  through the pointer \<^verbatim>\<open>image.Config\<close>, with no test of it: \<^verbatim>\<open>image.Config.Cmd\<close> (line 105)
  and \<^verbatim>\<open>image.Config.Entrypoint\<close> (line 109) panic when the image has no \<^verbatim>\<open>Config\<close>.
\<close>

definition imageDefaults ::
  "('c, 'h) proxy \<Rightarrow> 'c docker_Config_scheme \<Rightarrow> error + 'c docker_Config_scheme" where
  "imageDefaults P container =
     (if len (Entrypoint container) = 0 then
        (case InspectImage P (Image container) of
           Inl err \<Rightarrow>
             (if err = docker_ErrNoSuchImage then Inl (ErrNoSuchImage (Image container))
              else Inl (ClientError err))
         | Inr img \<Rightarrow>
             (case (if len (Cmd container) = 0 then
                      (case image_Config img of
                         None \<Rightarrow> Inl Panic
                       | Some config \<Rightarrow> Inr (container\<lparr>Cmd := image_Cmd config\<rparr>))
                    else Inr container) of
                Inl err \<Rightarrow> Inl err
              | Inr c1 \<Rightarrow>
                  (if Entrypoint c1 = None then
                     (case image_Config img of
                        None \<Rightarrow> Inl Panic
                      | Some config \<Rightarrow> Inr (c1\<lparr>Entrypoint := image_Entrypoint config\<rparr>))
                   else Inr c1)))
      else Inr container)"

text \<open>
  Lines 113-121. \<^verbatim>\<open>weaveWaitEntrypoint[0]\<close> is read only when the entrypoint is not empty,
  and panics when \<open>weaveWaitEntrypoint\<close> is.
\<close>

definition wrapEntrypoint ::
  "('c, 'h) proxy \<Rightarrow> 'c docker_Config_scheme \<Rightarrow> error + 'c docker_Config_scheme" where
  "wrapEntrypoint P container =
     (if len (Entrypoint container) = 0 \<and> len (Cmd container) = 0 then
        Inl ErrNoCommandSpecified
      else if len (Entrypoint container) = 0 then
        Inr (container\<lparr>Entrypoint :=
               go_append (weaveWaitEntrypoint P) (elems (Entrypoint container))\<rparr>)
      else if len (weaveWaitEntrypoint P) = 0 then Inl Panic
      else if hd (elems (Entrypoint container)) \<noteq> hd (elems (weaveWaitEntrypoint P)) then
        Inr (container\<lparr>Entrypoint :=
               go_append (weaveWaitEntrypoint P) (elems (Entrypoint container))\<rparr>)
      else Inr container)"

definition setWeaveWaitEntrypoint ::
  "('c, 'h) proxy \<Rightarrow> 'c docker_Config_scheme \<Rightarrow> error + 'c docker_Config_scheme" where
  "setWeaveWaitEntrypoint P container =
     (case imageDefaults P container of
        Inl err \<Rightarrow> Inl err
      | Inr c \<Rightarrow> wrapEntrypoint P c)"

subsection \<open>getDNSDomain (lines 159-181)\<close>

text \<open>\<^verbatim>\<open>%d\<close> of \<^verbatim>\<open>fmt.Sprintf\<close>: an integer in decimal.\<close>

fun fmt_nat :: "nat \<Rightarrow> string" where
  "fmt_nat n =
     (if n < 10 then [''0123456789'' ! n]
      else fmt_nat (n div 10) @ [''0123456789'' ! (n mod 10)])"

definition fmt_d :: "int \<Rightarrow> string" where
  "fmt_d i = (if i < 0 then CHR ''-'' # fmt_nat (nat (- i)) else fmt_nat (nat i))"

text \<open>
  The result is the pair \<^verbatim>\<open>(domain, running)\<close>. Every early return leaves \<^verbatim>\<open>domain\<close> at
  \<open>DefaultLocalDomain\<close> and \<^verbatim>\<open>running\<close> at its zero value.
\<close>

definition getDNSDomain :: "('c, 'h) proxy \<Rightarrow> string \<times> bool" where
  "getDNSDomain P =
     (case InspectContainer P ''weavedns'' of
        Inl err \<Rightarrow> (DefaultLocalDomain P, False)
      | Inr dnsContainer \<Rightarrow>
          (case NetworkSettings dnsContainer of
             None \<Rightarrow> (DefaultLocalDomain P, False)
           | Some ns \<Rightarrow>
               (if IPAddress ns = [] then (DefaultLocalDomain P, False)
                else
                  (let url = ''http://'' @ IPAddress ns @ '':'' @ fmt_d (DefaultHTTPPort P)
                               @ ''/domain''
                   in case http_Get P url of
                        None \<Rightarrow> (DefaultLocalDomain P, False)
                      | Some resp \<Rightarrow>
                          (if StatusCode resp \<noteq> 200 then (DefaultLocalDomain P, False)
                           else (case resp_Body resp of
                                   Inl err \<Rightarrow> (DefaultLocalDomain P, False)
                                 | Inr b \<Rightarrow> (b, True)))))))"

subsection \<open>setWeaveDNS (lines 124-157)\<close>

text \<open>
  \<^verbatim>\<open>http.Request\<close>, as far as it is used: what \<^verbatim>\<open>ioutil.ReadAll(r.Body)\<close> yields (\<open>Inl\<close> its
  error), \<^verbatim>\<open>r.ContentLength\<close>, and \<^verbatim>\<open>r.URL.Query().Get("name")\<close>, which is empty when the
  query has no \<^verbatim>\<open>name\<close>.
\<close>

record http_Request =
  Body :: "string + string"
  ContentLength :: int
  query_name :: string

text \<open>
  Lines 137-146, on the \<^verbatim>\<open>docker.Config\<close> the body points to: the new config and what is
  logged.
\<close>

definition setHostname ::
  "string \<Rightarrow> string \<Rightarrow> 'c docker_Config_scheme \<Rightarrow> 'c docker_Config_scheme \<times> log_line list" where
  "setHostname dnsDomain name config =
     (if Hostname config = [] \<and> name \<noteq> [] then
        (let trimmedDNSDomain = strings_TrimSuffix dnsDomain ''.''
         in if length name + 1 + length trimmedDNSDomain > MaxDockerHostname then
              (config,
               [Warning (''Container name ['' @ name @ ''] too long to be used as hostname'')])
            else (config\<lparr>Hostname := name, Domainname := trimmedDNSDomain\<rparr>, []))
      else (config, []))"

text \<open>Lines 148-154, on the \<^verbatim>\<open>docker.HostConfig\<close>, given the hostname as it is by then.\<close>

definition setDNSSearch ::
  "string \<Rightarrow> string \<Rightarrow> 'h docker_HostConfig_scheme \<Rightarrow> 'h docker_HostConfig_scheme" where
  "setDNSSearch dnsDomain hostname hostConfig =
     (if len (DNSSearch hostConfig) = 0 then
        (if hostname = [] then hostConfig\<lparr>DNSSearch := Some [dnsDomain]\<rparr>
         else hostConfig\<lparr>DNSSearch := Some [''.'']\<rparr>)
      else hostConfig)"

text \<open>
  The whole function. \<^verbatim>\<open>container.HostConfig.DNS\<close> (line 134) and \<^verbatim>\<open>container.Hostname\<close>
  (line 137) go through the two pointers of the body, and panic on \<^verbatim>\<open>nil\<close>.
\<close>

definition setWeaveDNS ::
  "('c, 'h) proxy \<Rightarrow> ('c, 'h) createContainerRequestBody \<Rightarrow> http_Request
     \<Rightarrow> (error + ('c, 'h) createContainerRequestBody) \<times> log_line list" where
  "setWeaveDNS P container r =
     (if WithoutDNS P then (Inr container, [])
      else
        (case getDNSDomain P of
           (dnsDomain, dnsRunning) \<Rightarrow>
             (if \<not> (dnsRunning \<or> WithDNS P) then (Inr container, [])
              else
                (case HostConfig container of
                   None \<Rightarrow> (Inl Panic, [])
                 | Some hc \<Rightarrow>
                     (let hc1 = hc\<lparr>DNS := go_append (DNS hc) [dockerBridgeIP P]\<rparr>
                      in case Config container of
                           None \<Rightarrow> (Inl Panic, [])
                         | Some config \<Rightarrow>
                             (case setHostname dnsDomain (query_name r) config of
                                (config1, logged) \<Rightarrow>
                                  (Inr (container
                                          \<lparr>Config := Some config1,
                                           HostConfig :=
                                             Some (setDNSSearch dnsDomain (Hostname config1) hc1)\<rparr>),
                                   logged)))))))"

subsection \<open>Decoding and encoding the body (lines 25-29, 49-52, 73)\<close>

text \<open>
  \<^verbatim>\<open>encoding/json\<close> finds the field for a key of the text by its name, or failing that by
  its name up to the case of letters; the long s and the Kelvin sign count as \<open>s\<close> and
  \<open>k\<close>.
\<close>

definition lower_ascii :: "char \<Rightarrow> char" where
  "lower_ascii c =
     (case map_of (zip ''ABCDEFGHIJKLMNOPQRSTUVWXYZ'' ''abcdefghijklmnopqrstuvwxyz'') c of
        None \<Rightarrow> c
      | Some l \<Rightarrow> l)"

fun fold_key :: "string \<Rightarrow> string" where
  "fold_key (c # d # e # cs) =
     (if c = CHR 0xE2 \<and> d = CHR 0x84 \<and> e = CHR 0xAA then CHR ''k'' # fold_key cs
      else if c = CHR 0xC5 \<and> d = CHR 0xBF then CHR ''s'' # fold_key (e # cs)
      else lower_ascii c # fold_key (d # e # cs))"
| "fold_key [c, d] =
     (if c = CHR 0xC5 \<and> d = CHR 0xBF then ''s''
      else [lower_ascii c, lower_ascii d])"
| "fold_key [c] = [lower_ascii c]"
| "fold_key [] = []"

definition equalFold :: "string \<Rightarrow> string \<Rightarrow> bool" where
  "equalFold field_name key = (fold_key key = fold_key field_name)"

text \<open>
  One member of the object, stored into the body. The fields of the body itself are
  \<^verbatim>\<open>HostConfig\<close> and \<^verbatim>\<open>MacAddress\<close> (lines 27-28); they hide a field of the embedded
  \<^verbatim>\<open>docker.Config\<close> of the same name. Every other key is offered to \<^verbatim>\<open>docker.Config\<close>, whose
  pointer is allocated as soon as one of its fields is named. \<^verbatim>\<open>null\<close> clears a pointer
  and leaves a string as it is. A key that names no field is skipped.
\<close>

definition store_member ::
  "('c, 'h) proxy \<Rightarrow> string \<times> json \<Rightarrow> ('c, 'h) createContainerRequestBody
     \<Rightarrow> string + ('c, 'h) createContainerRequestBody" where
  "store_member P kv container =
     (case kv of
        (k, v) \<Rightarrow>
          (if equalFold ''HostConfig'' k then
             (if v = JNull then Inr (container\<lparr>HostConfig := None\<rparr>)
              else
                (case hostConfig_load P v
                        (case HostConfig container of
                           None \<Rightarrow> new_HostConfig P
                         | Some h \<Rightarrow> h) of
                   Inl err \<Rightarrow> Inl err
                 | Inr h \<Rightarrow> Inr (container\<lparr>HostConfig := Some h\<rparr>)))
           else if equalFold ''MacAddress'' k then
             (case v of
                JNull \<Rightarrow> Inr container
              | JString s \<Rightarrow> Inr (container\<lparr>MacAddress := s\<rparr>)
              | _ \<Rightarrow> Inl ''json: cannot unmarshal into Go value of type string'')
           else
             (case config_store P k v
                     (case Config container of
                        None \<Rightarrow> new_Config P
                      | Some c \<Rightarrow> c) of
                None \<Rightarrow> Inr container
              | Some (Inl err) \<Rightarrow> Inl err
              | Some (Inr c) \<Rightarrow> Inr (container\<lparr>Config := Some c\<rparr>))))"

fun store_members ::
  "('c, 'h) proxy \<Rightarrow> (string \<times> json) list \<Rightarrow> ('c, 'h) createContainerRequestBody
     \<Rightarrow> string + ('c, 'h) createContainerRequestBody" where
  "store_members P [] container = Inr container"
| "store_members P (kv # kvs) container =
     (case store_member P kv container of
        Inl err \<Rightarrow> Inl err
      | Inr container' \<Rightarrow> store_members P kvs container')"

text \<open>
  \<^verbatim>\<open>json.Unmarshal(body, &container)\<close> on the fresh \<^verbatim>\<open>createContainerRequestBody{}\<close> of line 49,
  once the bytes are scanned: an object is stored member by member, \<^verbatim>\<open>null\<close> changes
  nothing, any other document does not fit a struct.
\<close>

definition fromJSON ::
  "('c, 'h) proxy \<Rightarrow> json \<Rightarrow> string + ('c, 'h) createContainerRequestBody" where
  "fromJSON P j =
     (case j of
        JObject ms \<Rightarrow> store_members P ms \<lparr>Config = None, HostConfig = None, MacAddress = []\<rparr>
      | JNull \<Rightarrow> Inr \<lparr>Config = None, HostConfig = None, MacAddress = []\<rparr>
      | _ \<Rightarrow> Inl ''json: cannot unmarshal into Go value of type proxy.createContainerRequestBody'')"

definition json_Unmarshal ::
  "('c, 'h) proxy \<Rightarrow> string \<Rightarrow> string + ('c, 'h) createContainerRequestBody" where
  "json_Unmarshal P body =
     (case json_scan P body of
        Inl err \<Rightarrow> Inl err
      | Inr j \<Rightarrow> fromJSON P j)"

text \<open>
  \<^verbatim>\<open>json.Marshal(container)\<close>, before the document is printed: the fields of the embedded
  \<^verbatim>\<open>docker.Config\<close> when the pointer is set (but for those the body's own fields hide), then
  \<^verbatim>\<open>HostConfig\<close> and \<^verbatim>\<open>MacAddress\<close>, each left out when empty (\<^verbatim>\<open>omitempty\<close>, lines 27-28).
\<close>

definition toJSON ::
  "('c, 'h) proxy \<Rightarrow> ('c, 'h) createContainerRequestBody \<Rightarrow> string + json" where
  "toJSON P container =
     (case (case Config container of
              None \<Rightarrow> Inr []
            | Some c \<Rightarrow> config_members P c) of
        Inl err \<Rightarrow> Inl err
      | Inr cms \<Rightarrow>
          (case (case HostConfig container of
                   None \<Rightarrow> Inr []
                 | Some h \<Rightarrow>
                     (case hostConfig_dump P h of
                        Inl err \<Rightarrow> Inl err
                      | Inr hj \<Rightarrow> Inr [(''HostConfig'', hj)])) of
             Inl err \<Rightarrow> Inl err
           | Inr hms \<Rightarrow>
               Inr (JObject
                      (filter (\<lambda>m. fst m \<noteq> ''HostConfig'' \<and> fst m \<noteq> ''MacAddress'') cms
                       @ hms
                       @ (if MacAddress container = [] then []
                          else [(''MacAddress'', JString (MacAddress container))])))))"

definition json_Marshal ::
  "('c, 'h) proxy \<Rightarrow> ('c, 'h) createContainerRequestBody \<Rightarrow> string + string" where
  "json_Marshal P container =
     (case toJSON P container of
        Inl err \<Rightarrow> Inl err
      | Inr j \<Rightarrow> Inr (json_print P j))"

subsection \<open>InterceptRequest (lines 42-81)\<close>

text \<open>
  Lines 54-71: what happens to the decoded body between \<^verbatim>\<open>json.Unmarshal\<close> and
  \<^verbatim>\<open>json.Marshal\<close>, and what is logged on the way.
\<close>

definition mutate ::
  "('c, 'h) proxy \<Rightarrow> http_Request \<Rightarrow> ('c, 'h) createContainerRequestBody
     \<Rightarrow> (error + ('c, 'h) createContainerRequestBody) \<times> log_line list" where
  "mutate P r container =
     (case weaveCIDRsFromConfig P (Config container) (HostConfig container) of
        Inl err \<Rightarrow> (Inr container, [Info (''Ignoring container due to '' @ err)])
      | Inr cidrs \<Rightarrow>
          (let logged =
                 [Info (''Creating container with WEAVE_CIDR \"'' @ strings_Join cidrs '' ''
                        @ ''\"'')];
               hostConfig = (case HostConfig container of
                               None \<Rightarrow> new_HostConfig P
                             | Some h \<Rightarrow> h);
               config = (case Config container of
                           None \<Rightarrow> new_Config P
                         | Some c \<Rightarrow> c);
               hostConfig1 = addWeaveWaitVolume P hostConfig
           in case setWeaveWaitEntrypoint P config of
                Inl err \<Rightarrow> (Inl err, logged)
              | Inr config1 \<Rightarrow>
                  (case setWeaveDNS P
                          (container\<lparr>Config := Some config1, HostConfig := Some hostConfig1\<rparr>)
                          r of
                     (result, logged') \<Rightarrow> (result, logged @ logged'))))"

definition InterceptRequest ::
  "('c, 'h) proxy \<Rightarrow> http_Request \<Rightarrow> (error + http_Request) \<times> log_line list" where
  "InterceptRequest P r =
     (case Body r of
        Inl err \<Rightarrow> (Inl (ReadError err), [])
      | Inr body \<Rightarrow>
          (case json_Unmarshal P body of
             Inl err \<Rightarrow> (Inl (JSONError err), [])
           | Inr container \<Rightarrow>
               (case mutate P r container of
                  (Inl err, logged) \<Rightarrow> (Inl err, logged)
                | (Inr container', logged) \<Rightarrow>
                    (case json_Marshal P container' of
                       Inl err \<Rightarrow> (Inl (JSONError err), logged)
                     | Inr newBody \<Rightarrow>
                         (Inr (r\<lparr>Body := Inr newBody,
                                 ContentLength := int (length newBody)\<rparr>),
                          logged)))))"

text \<open>\<^verbatim>\<open>InterceptResponse\<close> (lines 183-185) returns \<^verbatim>\<open>nil\<close> and touches nothing.\<close>

subsection \<open>The pipeline on documents\<close>

text \<open>
  Decode, mutate, encode: \<open>InterceptRequest\<close> between the scanning of the bytes it has read
  and the printing of the bytes it forwards (lemma \<open>InterceptRequest_documents\<close> below).
\<close>

definition decode_mutate_encode ::
  "('c, 'h) proxy \<Rightarrow> http_Request \<Rightarrow> json \<Rightarrow> (error + json) \<times> log_line list" where
  "decode_mutate_encode P r j =
     (case fromJSON P j of
        Inl err \<Rightarrow> (Inl (JSONError err), [])
      | Inr container \<Rightarrow>
          (case mutate P r container of
             (Inl err, logged) \<Rightarrow> (Inl err, logged)
           | (Inr container', logged) \<Rightarrow>
               (case toJSON P container' of
                  Inl err \<Rightarrow> (Inl (JSONError err), logged)
                | Inr j' \<Rightarrow> (Inr j', logged))))"

text \<open>Two documents are the same object up to the order of their keys.\<close>

definition same_object :: "json \<Rightarrow> json \<Rightarrow> bool" where
  "same_object a b =
     (case (a, b) of
        (JObject ms, JObject ns) \<Rightarrow> map_of ms = map_of ns \<and> set (map fst ms) = set (map fst ns)
      | _ \<Rightarrow> a = b)"

subsection \<open>An environment for the examples\<close>

text \<open>
  A proxy with the settings of a usual run: the wrapper is \<^verbatim>\<open>/w/w\<close>, the DNS is forced on,
  no \<^verbatim>\<open>weavedns\<close> container runs, the one image the engine knows is \<^verbatim>\<open>busybox\<close>, with the
  entrypoint \<^verbatim>\<open>["/bin/sh","-c"]\<close> and no command. Its \<^verbatim>\<open>docker.Config\<close> and
  \<^verbatim>\<open>docker.HostConfig\<close> have the fields the records name and no other; strings are left out
  of the text when empty, \<^verbatim>\<open>Cmd\<close> and \<^verbatim>\<open>Entrypoint\<close> never. Its printer writes a document
  without spaces and without escapes, and its scanner reads the texts of the listed
  documents.
\<close>

fun example_strings :: "json list \<Rightarrow> string list option" where
  "example_strings [] = Some []"
| "example_strings (JString s # js) = map_option ((#) s) (example_strings js)"
| "example_strings (_ # js) = None"

definition example_string_field ::
  "json \<Rightarrow> (string \<Rightarrow> 'a) \<Rightarrow> 'a \<Rightarrow> (string + 'a) option" where
  "example_string_field v upd c =
     (case v of
        JNull \<Rightarrow> Some (Inr c)
      | JString s \<Rightarrow> Some (Inr (upd s))
      | _ \<Rightarrow> Some (Inl ''json: cannot unmarshal into Go value of type string''))"

definition example_slice_field ::
  "json \<Rightarrow> (slice \<Rightarrow> 'a) \<Rightarrow> (string + 'a) option" where
  "example_slice_field v upd =
     (case v of
        JNull \<Rightarrow> Some (Inr (upd None))
      | JArray js \<Rightarrow>
          (case example_strings js of
             None \<Rightarrow> Some (Inl ''json: cannot unmarshal into Go value of type string'')
           | Some xs \<Rightarrow> Some (Inr (upd (Some xs))))
      | _ \<Rightarrow> Some (Inl ''json: cannot unmarshal into Go value of type []string''))"

definition example_config_store ::
  "string \<Rightarrow> json \<Rightarrow> docker_Config \<Rightarrow> (string + docker_Config) option" where
  "example_config_store k v c =
     (if k = ''Hostname'' then example_string_field v (\<lambda>s. c\<lparr>Hostname := s\<rparr>) c
      else if k = ''Domainname'' then example_string_field v (\<lambda>s. c\<lparr>Domainname := s\<rparr>) c
      else if k = ''Cmd'' then example_slice_field v (\<lambda>s. c\<lparr>Cmd := s\<rparr>)
      else if k = ''Image'' then example_string_field v (\<lambda>s. c\<lparr>Image := s\<rparr>) c
      else if k = ''Entrypoint'' then example_slice_field v (\<lambda>s. c\<lparr>Entrypoint := s\<rparr>)
      else None)"

definition example_slice_json :: "slice \<Rightarrow> json" where
  "example_slice_json s = (case s of None \<Rightarrow> JNull | Some xs \<Rightarrow> JArray (map JString xs))"

definition example_omitempty :: "string \<Rightarrow> json \<Rightarrow> bool \<Rightarrow> (string \<times> json) list" where
  "example_omitempty k v omit = (if omit then [] else [(k, v)])"

definition example_config_members :: "docker_Config \<Rightarrow> string + (string \<times> json) list" where
  "example_config_members c =
     Inr (example_omitempty ''Hostname'' (JString (Hostname c)) (Hostname c = [])
          @ example_omitempty ''Domainname'' (JString (Domainname c)) (Domainname c = [])
          @ [(''Cmd'', example_slice_json (Cmd c))]
          @ example_omitempty ''Image'' (JString (Image c)) (Image c = [])
          @ [(''Entrypoint'', example_slice_json (Entrypoint c))])"

definition example_hostConfig_store ::
  "string \<times> json \<Rightarrow> string + docker_HostConfig \<Rightarrow> string + docker_HostConfig" where
  "example_hostConfig_store kv acc =
     (case acc of
        Inl err \<Rightarrow> Inl err
      | Inr h \<Rightarrow>
          (case (if fst kv = ''Binds'' then example_slice_field (snd kv) (\<lambda>s. h\<lparr>Binds := s\<rparr>)
                 else if fst kv = ''Dns'' then example_slice_field (snd kv) (\<lambda>s. h\<lparr>DNS := s\<rparr>)
                 else if fst kv = ''DnsSearch'' then
                   example_slice_field (snd kv) (\<lambda>s. h\<lparr>DNSSearch := s\<rparr>)
                 else None) of
             None \<Rightarrow> Inr h
           | Some res \<Rightarrow> res))"

definition example_hostConfig_load ::
  "json \<Rightarrow> docker_HostConfig \<Rightarrow> string + docker_HostConfig" where
  "example_hostConfig_load j h =
     (case j of
        JObject ms \<Rightarrow> fold example_hostConfig_store ms (Inr h)
      | _ \<Rightarrow> Inl ''json: cannot unmarshal into Go value of type docker.HostConfig'')"

definition example_hostConfig_dump :: "docker_HostConfig \<Rightarrow> string + json" where
  "example_hostConfig_dump h =
     Inr (JObject
            (example_omitempty ''Binds'' (example_slice_json (Binds h)) (len (Binds h) = 0)
             @ example_omitempty ''Dns'' (example_slice_json (DNS h)) (len (DNS h) = 0)
             @ example_omitempty ''DnsSearch'' (example_slice_json (DNSSearch h))
                 (len (DNSSearch h) = 0)))"

fun example_print :: "json \<Rightarrow> string" where
  "example_print JNull = ''null''"
| "example_print (JBool b) = (if b then ''true'' else ''false'')"
| "example_print (JNumber n) = n"
| "example_print (JString s) = ''\"'' @ s @ ''\"''"
| "example_print (JArray js) = ''['' @ strings_Join (map example_print js) '','' @ '']''"
| "example_print (JObject ms) =
     ''{''
     @ strings_Join (map (\<lambda>m. ''\"'' @ fst m @ ''\":'' @ example_print (snd m)) ms) '',''
     @ ''}''"

definition example_documents :: "json list" where
  "example_documents =
     [JObject [],
      JObject [(''MacAddress'', JString [])],
      JObject [(''MacAddress'', JString ''02:42:ac:11:00:02''), (''Foo'', JObject [])],
      JObject [(''Image'', JString ''busybox''), (''Cmd'', JArray [JString ''top''])]]"

definition example_scan :: "string \<Rightarrow> string + json" where
  "example_scan text =
     (case find (\<lambda>j. example_print j = text) example_documents of
        None \<Rightarrow> Inl ''invalid character''
      | Some j \<Rightarrow> Inr j)"

definition busybox :: docker_Image where
  "busybox =
     \<lparr>image_Config =
        Some \<lparr>image_Cmd = Some [], image_Entrypoint = Some [''/bin/sh'', ''-c'']\<rparr>\<rparr>"

definition exampleProxy :: "(unit, unit) proxy" where
  "exampleProxy =
     \<lparr>WithoutDNS = False,
      WithDNS = True,
      weaveWaitVolume = ''/var/lib/weave/w'',
      dockerBridgeIP = ''172.17.42.1'',
      weaveCIDRsFromConfig = (\<lambda>config hostConfig. Inr []),
      InspectImage =
        (\<lambda>name. if name = ''busybox'' then Inr busybox else Inl docker_ErrNoSuchImage),
      InspectContainer = (\<lambda>name. Inl (docker_OtherError ''no such container'')),
      weaveWaitEntrypoint = Some [''/w/w''],
      DefaultLocalDomain = ''weave.local.'',
      DefaultHTTPPort = 6785,
      http_Get = (\<lambda>url. None),
      json_scan = example_scan,
      json_print = example_print,
      config_store = example_config_store,
      config_members = example_config_members,
      hostConfig_load = example_hostConfig_load,
      hostConfig_dump = example_hostConfig_dump,
      config_rest0 = (),
      hostConfig_rest0 = ()\<rparr>"

text \<open>The same proxy when the address resolver declines the container.\<close>

definition decliningProxy :: "(unit, unit) proxy" where
  "decliningProxy =
     exampleProxy\<lparr>weaveCIDRsFromConfig := (\<lambda>config hostConfig. Inl ''no WEAVE_CIDR'')\<rparr>"

definition exampleRequest :: "string \<Rightarrow> string \<Rightarrow> http_Request" where
  "exampleRequest body name =
     \<lparr>Body = Inr body, ContentLength = int (length body), query_name = name\<rparr>"

text \<open>A host configuration with two stale mounts of \<^verbatim>\<open>/w\<close>.\<close>

definition staleBinds :: docker_HostConfig where
  "staleBinds =
     \<lparr>Binds = Some [''/old:/w'', ''/data:/data:rw'', ''/other:/w:rw'', ''/w''],
      DNS = None, DNSSearch = None\<rparr>"

text \<open>
  A \<^verbatim>\<open>docker.Config\<close> with an image, an entrypoint and a command; a proxy whose engine
  cannot be reached; and a proxy whose engine answers every inspection with an image that
  has no \<^verbatim>\<open>Config\<close>.
\<close>

definition exampleConfig :: "string \<Rightarrow> slice \<Rightarrow> slice \<Rightarrow> docker_Config" where
  "exampleConfig img entrypoint cmd =
     \<lparr>Hostname = [], Domainname = [], Cmd = cmd, Image = img, Entrypoint = entrypoint\<rparr>"

definition unreachableEngine :: "(unit, unit) proxy" where
  "unreachableEngine =
     exampleProxy\<lparr>InspectImage := (\<lambda>name. Inl (docker_OtherError ''connection refused''))\<rparr>"

definition configlessEngine :: "(unit, unit) proxy" where
  "configlessEngine = exampleProxy\<lparr>InspectImage := (\<lambda>name. Inr \<lparr>image_Config = None\<rparr>)\<rparr>"

text \<open>A decoded body: the image \<^verbatim>\<open>busybox\<close>, and a host configuration with nothing set.\<close>

definition exampleBody :: "(unit, unit) createContainerRequestBody" where
  "exampleBody =
     \<lparr>Config = Some (exampleConfig ''busybox'' None None),
      HostConfig = Some \<lparr>Binds = None, DNS = None, DNSSearch = None\<rparr>,
      MacAddress = []\<rparr>"

text \<open>A decoded body with a command and no host configuration.\<close>

definition topBody :: "(unit, unit) createContainerRequestBody" where
  "topBody =
     \<lparr>Config = Some (exampleConfig ''busybox'' None (Some [''top''])),
      HostConfig = None, MacAddress = []\<rparr>"

section \<open>Properties\<close>

subsection \<open>Splitting at colons\<close>

lemma split_append:
  "sep \<notin> set s \<Longrightarrow> strings_Split (s @ sep # t) sep = s # strings_Split t sep"
  by (induction s) auto

lemma split_nonempty: "strings_Split s sep \<noteq> []"
  by (induction s) (auto split: list.splits)

lemma split_cases:
  "strings_Split s sep = w # ws \<Longrightarrow>
     sep \<notin> set w \<and>
     (if ws = [] then s = w else \<exists>t. s = w @ sep # t \<and> ws = strings_Split t sep)"
proof (induction s arbitrary: w ws)
  case Nil
  then show ?case by simp
next
  case (Cons x xs)
  show ?case
  proof (cases "x = sep")
    case True
    with Cons.prems show ?thesis by (auto simp: split_nonempty)
  next
    case False
    obtain v vs where v: "strings_Split xs sep = v # vs"
      using split_nonempty [of xs sep] by (cases "strings_Split xs sep") auto
    from Cons.IH [OF v] have ih: "sep \<notin> set v"
      "if vs = [] then xs = v else \<exists>t. xs = v @ sep # t \<and> vs = strings_Split t sep"
      by auto
    from Cons.prems False v have w: "w = x # v" "ws = vs" by auto
    show ?thesis using ih False by (auto simp: w split: if_splits)
  qed
qed

text \<open>
  The test of lines 86-87 in terms of the entry itself: it reads \<^verbatim>\<open>source:/w\<close>, with no
  colon in the source, and ends there or goes on with a colon.
\<close>

lemma mounts_w_iff:
  "mounts_w b \<longleftrightarrow>
     (\<exists>src rest. b = src @ '':/w'' @ rest \<and> CHR '':'' \<notin> set src
        \<and> (rest = [] \<or> hd rest = CHR '':''))"
proof
  assume m: "mounts_w b"
  obtain w ws where s: "strings_Split b (CHR '':'') = w # ws"
    using split_nonempty [of b "CHR '':''"] by (cases "strings_Split b (CHR '':'')") auto
  from m s have ws: "ws \<noteq> []" and hd: "hd ws = ''/w''"
    by (cases ws; auto simp: mounts_w_def Let_def)+
  from split_cases [OF s] ws obtain t where t: "CHR '':'' \<notin> set w" "b = w @ CHR '':'' # t"
    "ws = strings_Split t (CHR '':'')" by auto
  from ws hd have "ws = ''/w'' # tl ws" by (cases ws) auto
  with t(3) have v: "strings_Split t (CHR '':'') = ''/w'' # tl ws" by simp
  from split_cases [OF v]
  have "if tl ws = [] then t = ''/w''
        else \<exists>u. t = ''/w'' @ CHR '':'' # u \<and> tl ws = strings_Split u (CHR '':'')"
    by simp
  then have "\<exists>rest. t = ''/w'' @ rest \<and> (rest = [] \<or> hd rest = CHR '':'')"
    by (auto split: if_splits)
  with t show "\<exists>src rest. b = src @ '':/w'' @ rest \<and> CHR '':'' \<notin> set src
        \<and> (rest = [] \<or> hd rest = CHR '':'')" by auto
next
  assume "\<exists>src rest. b = src @ '':/w'' @ rest \<and> CHR '':'' \<notin> set src
        \<and> (rest = [] \<or> hd rest = CHR '':'')"
  then obtain src rest where b: "b = src @ CHR '':'' # (''/w'' @ rest)" "CHR '':'' \<notin> set src"
    "rest = [] \<or> hd rest = CHR '':''" by auto
  have "\<exists>vs. strings_Split (''/w'' @ rest) (CHR '':'') = ''/w'' # vs"
  proof (cases rest)
    case Nil
    then show ?thesis by simp
  next
    case (Cons c cs)
    with b(3) have "c = CHR '':''" by simp
    with Cons show ?thesis using split_append [of "CHR '':''" "''/w''" cs] by simp
  qed
  then show "mounts_w b"
    using b by (auto simp: mounts_w_def split_append)
qed

lemma mounts_w_volume: "CHR '':'' \<notin> set v \<Longrightarrow> mounts_w (v @ '':/w:ro'')"
  by (simp add: mounts_w_def split_append)

subsection \<open>The volume\<close>

lemma loop_filter:
  "addWeaveWaitVolume_loop binds xs = go_append binds (filter (\<lambda>b. \<not> mounts_w b) xs)"
  by (induction xs arbitrary: binds) (auto simp: go_append_def elems_def)

lemma addWeaveWaitVolume_filter:
  "addWeaveWaitVolume P hc =
     hc\<lparr>Binds := Some (filter (\<lambda>b. \<not> mounts_w b) (elems (Binds hc))
                        @ [weaveWaitVolume P @ '':/w:ro''])\<rparr>"
  by (simp add: addWeaveWaitVolume_def loop_filter go_append_def elems_def)

subsection \<open>C5: the support volume\<close>

text \<open>
  Claim C5, as the code has it. \<open>addWeaveWaitVolume\<close> is a total function without effects.
  It keeps the entries of \<open>Binds\<close> (none when \<open>Binds\<close> is \<^verbatim>\<open>nil\<close>) whose second piece
  between colons is not \<^verbatim>\<open>/w\<close>, in their order, and appends the one entry
  \<^verbatim>\<open><weaveWaitVolume>:/w:ro\<close>; no other field changes. An entry is dropped exactly when it
  reads \<^verbatim>\<open>source:/w\<close> with a colon-free source and ends there or goes on with a colon.
  Applying the function twice gives the same as applying it once exactly when the
  appended entry is itself such an entry, which it is whenever \<open>weaveWaitVolume\<close> has no
  colon.
\<close>

theorem addWeaveWaitVolume_binds:
  "addWeaveWaitVolume P hc =
     hc\<lparr>Binds := Some (filter (\<lambda>b. \<not> mounts_w b) (elems (Binds hc))
                        @ [weaveWaitVolume P @ '':/w:ro''])\<rparr>
   \<and> (mounts_w b \<longleftrightarrow>
        (\<exists>src rest. b = src @ '':/w'' @ rest \<and> CHR '':'' \<notin> set src
           \<and> (rest = [] \<or> hd rest = CHR '':'')))
   \<and> (addWeaveWaitVolume P (addWeaveWaitVolume P hc) = addWeaveWaitVolume P hc
        \<longleftrightarrow> mounts_w (weaveWaitVolume P @ '':/w:ro''))
   \<and> (CHR '':'' \<notin> set (weaveWaitVolume P) \<longrightarrow>
        addWeaveWaitVolume P (addWeaveWaitVolume P hc) = addWeaveWaitVolume P hc)"
proof -
  let ?e = "weaveWaitVolume P @ '':/w:ro''"
  let ?keep = "filter (\<lambda>b. \<not> mounts_w b) (elems (Binds hc))"
  let ?once = "hc\<lparr>Binds := Some (?keep @ [?e])\<rparr>"
  have once: "addWeaveWaitVolume P hc = ?once"
    by (rule addWeaveWaitVolume_filter)
  have twice: "addWeaveWaitVolume P ?once =
      hc\<lparr>Binds := Some (?keep @ (if mounts_w ?e then [] else [?e]) @ [?e])\<rparr>"
    by (simp add: addWeaveWaitVolume_filter elems_def)
  have eq: "hc\<lparr>Binds := Some xs\<rparr> = hc\<lparr>Binds := Some ys\<rparr> \<longleftrightarrow> xs = ys" for xs ys
  proof
    assume "hc\<lparr>Binds := Some xs\<rparr> = hc\<lparr>Binds := Some ys\<rparr>"
    then have "Binds (hc\<lparr>Binds := Some xs\<rparr>) = Binds (hc\<lparr>Binds := Some ys\<rparr>)" by simp
    then show "xs = ys" by simp
  qed simp
  have "addWeaveWaitVolume P ?once = ?once \<longleftrightarrow> mounts_w ?e"
    unfolding twice eq by simp
  then have idem: "addWeaveWaitVolume P (addWeaveWaitVolume P hc) = addWeaveWaitVolume P hc
        \<longleftrightarrow> mounts_w ?e"
    by (simp only: once)
  show ?thesis
    using once idem mounts_w_iff [of b] mounts_w_volume [of "weaveWaitVolume P"] by blast
qed

theorem addWeaveWaitVolume_binds_witness:
  "Binds (addWeaveWaitVolume exampleProxy staleBinds)
     = Some [''/data:/data:rw'', ''/w'', ''/var/lib/weave/w:/w:ro'']
   \<and> mounts_w ''/old:/w'' \<and> \<not> mounts_w ''/w''
   \<and> CHR '':'' \<notin> set (weaveWaitVolume exampleProxy)
   \<and> addWeaveWaitVolume exampleProxy (addWeaveWaitVolume exampleProxy staleBinds)
       = addWeaveWaitVolume exampleProxy staleBinds"
proof -
  have wv: "weaveWaitVolume exampleProxy = ''/var/lib/weave/w''"
    by (simp add: exampleProxy_def)
  have c: "CHR '':'' \<notin> set (weaveWaitVolume exampleProxy)"
    by (simp add: wv)
  have m: "mounts_w ''/old:/w''" "\<not> mounts_w ''/w''" "\<not> mounts_w ''/data:/data:rw''"
    "mounts_w ''/other:/w:rw''"
    by (simp_all add: mounts_w_def)
  note t = addWeaveWaitVolume_binds [of exampleProxy staleBinds "''/old:/w''"]
  from t have once: "addWeaveWaitVolume exampleProxy staleBinds =
      staleBinds\<lparr>Binds := Some (filter (\<lambda>b. \<not> mounts_w b) (elems (Binds staleBinds))
                                @ [weaveWaitVolume exampleProxy @ '':/w:ro''])\<rparr>"
    by (rule conjunct1)
  from t c have twice: "addWeaveWaitVolume exampleProxy (addWeaveWaitVolume exampleProxy staleBinds)
      = addWeaveWaitVolume exampleProxy staleBinds"
    by (elim conjE) simp
  have "Binds (addWeaveWaitVolume exampleProxy staleBinds)
     = Some [''/data:/data:rw'', ''/w'', ''/var/lib/weave/w:/w:ro'']"
    unfolding once by (simp add: wv staleBinds_def elems_def m)
  with twice c m show ?thesis by simp
qed

text \<open>
  With a colon in \<open>weaveWaitVolume\<close> the second piece of the appended entry is not
  \<^verbatim>\<open>/w\<close>: the second application keeps the entry of the first and appends another.
\<close>

theorem addWeaveWaitVolume_twice_counterexample:
  "elems (Binds (addWeaveWaitVolume (exampleProxy\<lparr>weaveWaitVolume := ''a:b''\<rparr>)
       \<lparr>Binds = None, DNS = None, DNSSearch = None\<rparr>))
     = [''a:b:/w:ro'']
   \<and> elems (Binds (addWeaveWaitVolume (exampleProxy\<lparr>weaveWaitVolume := ''a:b''\<rparr>)
       (addWeaveWaitVolume (exampleProxy\<lparr>weaveWaitVolume := ''a:b''\<rparr>)
          \<lparr>Binds = None, DNS = None, DNSSearch = None\<rparr>)))
     = [''a:b:/w:ro'', ''a:b:/w:ro'']"
  by (simp add: addWeaveWaitVolume_filter elems_def mounts_w_def exampleProxy_def)

subsection \<open>The entrypoint\<close>

lemma exampleProxy_simps:
  "weaveWaitEntrypoint exampleProxy = Some [''/w/w'']"
  "InspectImage exampleProxy name =
     (if name = ''busybox'' then Inr busybox else Inl docker_ErrNoSuchImage)"
  "WithoutDNS exampleProxy = False" "WithDNS exampleProxy = True"
  "dockerBridgeIP exampleProxy = ''172.17.42.1''"
  "DefaultLocalDomain exampleProxy = ''weave.local.''"
  "InspectContainer exampleProxy name = Inl (docker_OtherError ''no such container'')"
  "weaveWaitVolume exampleProxy = ''/var/lib/weave/w''"
  by (simp_all add: exampleProxy_def)

lemma imageDefaults_nonempty:
  "len (Entrypoint c) \<noteq> 0 \<Longrightarrow> imageDefaults P c = Inr c"
  by (simp add: imageDefaults_def)

lemma imageDefaults_error:
  "len (Entrypoint c) = 0 \<Longrightarrow> InspectImage P (Image c) = Inl err \<Longrightarrow>
   imageDefaults P c =
     (if err = docker_ErrNoSuchImage then Inl (ErrNoSuchImage (Image c))
      else Inl (ClientError err))"
  by (simp add: imageDefaults_def)

lemma imageDefaults_config:
  "len (Entrypoint c) = 0 \<Longrightarrow> InspectImage P (Image c) = Inr img \<Longrightarrow>
   image_Config img = Some ic \<Longrightarrow>
   imageDefaults P c =
     Inr (c\<lparr>Cmd := (if len (Cmd c) = 0 then image_Cmd ic else Cmd c),
            Entrypoint := (if Entrypoint c = None then image_Entrypoint ic
                           else Entrypoint c)\<rparr>)"
  by (simp add: imageDefaults_def)

lemma imageDefaults_no_config:
  "len (Entrypoint c) = 0 \<Longrightarrow> InspectImage P (Image c) = Inr img \<Longrightarrow>
   image_Config img = None \<Longrightarrow>
   imageDefaults P c =
     (if len (Cmd c) = 0 \<or> Entrypoint c = None then Inl Panic else Inr c)"
  by (simp add: imageDefaults_def)

lemma wrapEntrypoint_cases:
  "len (weaveWaitEntrypoint P) \<noteq> 0 \<Longrightarrow>
   wrapEntrypoint P c =
     (if len (Entrypoint c) = 0 \<and> len (Cmd c) = 0 then Inl ErrNoCommandSpecified
      else if len (Entrypoint c) = 0
              \<or> hd (elems (Entrypoint c)) \<noteq> hd (elems (weaveWaitEntrypoint P))
      then Inr (c\<lparr>Entrypoint :=
                    Some (elems (weaveWaitEntrypoint P) @ elems (Entrypoint c))\<rparr>)
      else Inr c)"
  by (cases "weaveWaitEntrypoint P")
     (auto simp: wrapEntrypoint_def go_append_def len_def elems_def)

text \<open>
  The outcomes of \<open>setWeaveWaitEntrypoint\<close>. It fails with \<open>ErrNoSuchImage\<close>, carrying the
  image of the config, exactly when the entrypoint is empty and the inspection of the image
  reports \<^verbatim>\<open>docker.ErrNoSuchImage\<close>. It passes on any other error of the inspection as it
  is, and fails so exactly when the entrypoint is empty and the inspection fails otherwise.
  It fails with \<open>ErrNoCommandSpecified\<close> exactly when entrypoint and command are both empty
  after the defaults of the image (\<open>imageDefaults\<close>, lines 96-111): that is, both were
  empty, the image has a \<^verbatim>\<open>Config\<close> with no command, and the entrypoint was set (to nothing)
  or the image has none. With a wrapper sequence that is not empty, it panics exactly when
  the entrypoint is empty, the inspected image has no \<^verbatim>\<open>Config\<close>, and the command is empty
  or the entrypoint is \<^verbatim>\<open>nil\<close>; and it succeeds in every case that is left.
\<close>

lemma setWeaveWaitEntrypoint_outcomes:
  "(setWeaveWaitEntrypoint P c = Inl (ErrNoSuchImage n) \<longleftrightarrow>
      n = Image c \<and> len (Entrypoint c) = 0
      \<and> InspectImage P (Image c) = Inl docker_ErrNoSuchImage)
   \<and> (setWeaveWaitEntrypoint P c = Inl (ClientError e) \<longleftrightarrow>
        e \<noteq> docker_ErrNoSuchImage \<and> len (Entrypoint c) = 0
        \<and> InspectImage P (Image c) = Inl e)
   \<and> (setWeaveWaitEntrypoint P c = Inl ErrNoCommandSpecified \<longleftrightarrow>
        (\<exists>c1. imageDefaults P c = Inr c1 \<and> len (Entrypoint c1) = 0 \<and> len (Cmd c1) = 0))
   \<and> (setWeaveWaitEntrypoint P c = Inl ErrNoCommandSpecified \<longleftrightarrow>
        len (Entrypoint c) = 0 \<and> len (Cmd c) = 0
        \<and> (\<exists>img ic. InspectImage P (Image c) = Inr img \<and> image_Config img = Some ic
               \<and> len (image_Cmd ic) = 0
               \<and> (Entrypoint c = None \<longrightarrow> len (image_Entrypoint ic) = 0)))
   \<and> (len (weaveWaitEntrypoint P) \<noteq> 0 \<longrightarrow>
        (setWeaveWaitEntrypoint P c = Inl Panic \<longleftrightarrow>
           len (Entrypoint c) = 0
           \<and> (\<exists>img. InspectImage P (Image c) = Inr img \<and> image_Config img = None)
           \<and> (len (Cmd c) = 0 \<or> Entrypoint c = None)))
   \<and> (len (weaveWaitEntrypoint P) \<noteq> 0 \<longrightarrow>
        ((\<exists>c'. setWeaveWaitEntrypoint P c = Inr c') \<longleftrightarrow>
           \<not> (len (Entrypoint c) = 0 \<and> (\<exists>err. InspectImage P (Image c) = Inl err))
           \<and> \<not> (\<exists>c1. imageDefaults P c = Inr c1 \<and> len (Entrypoint c1) = 0
                       \<and> len (Cmd c1) = 0)
           \<and> \<not> (len (Entrypoint c) = 0
                 \<and> (\<exists>img. InspectImage P (Image c) = Inr img \<and> image_Config img = None)
                 \<and> (len (Cmd c) = 0 \<or> Entrypoint c = None))))"
proof -
  have wrap: "wrapEntrypoint P c1 \<noteq> Inl (ErrNoSuchImage n)"
    "wrapEntrypoint P c1 \<noteq> Inl (ClientError e)"
    "wrapEntrypoint P c1 = Inl ErrNoCommandSpecified \<longleftrightarrow>
       len (Entrypoint c1) = 0 \<and> len (Cmd c1) = 0" for c1
    by (auto simp: wrapEntrypoint_def)
  have wrap_ok: "(\<exists>c'. wrapEntrypoint P c1 = Inr c') \<longleftrightarrow>
       \<not> (len (Entrypoint c1) = 0 \<and> len (Cmd c1) = 0)"
    "wrapEntrypoint P c1 \<noteq> Inl Panic"
    if "len (weaveWaitEntrypoint P) \<noteq> 0" for c1
    using that by (auto simp: wrapEntrypoint_cases)
  show ?thesis
  proof (cases "len (Entrypoint c) = 0")
    case False
    then show ?thesis
      using wrap wrap_ok by (auto simp: setWeaveWaitEntrypoint_def imageDefaults_nonempty)
  next
    case True
    show ?thesis
    proof (cases "InspectImage P (Image c)")
      case (Inl err)
      with True show ?thesis
        by (auto simp: setWeaveWaitEntrypoint_def imageDefaults_error)
    next
      case (Inr img)
      show ?thesis
      proof (cases "image_Config img")
        case None
        with True Inr show ?thesis
          using wrap wrap_ok
          by (auto simp: setWeaveWaitEntrypoint_def imageDefaults_no_config)
      next
        case (Some ic)
        with True Inr show ?thesis
          using wrap wrap_ok
          by (auto simp: setWeaveWaitEntrypoint_def imageDefaults_config len_def elems_def)
      qed
    qed
  qed
qed

text \<open>
  Claim C2 says that \<open>setWeaveWaitEntrypoint\<close> fails with \<open>ErrNoSuchImage\<close> exactly when the
  entrypoint is empty and the engine reports no such image, passes on any other error of
  the inspection, fails with \<open>ErrNoCommandSpecified\<close> exactly when entrypoint and command
  are both empty after the defaults of the image, and succeeds in every other case. The
  last part fails where the engine answers the inspection with an image that has no
  \<^verbatim>\<open>Config\<close>. For a config with no entrypoint and the command \<^verbatim>\<open>["top"]\<close>, the inspection
  succeeds and the command is not empty, so none of the three failures applies; line 109
  reads \<^verbatim>\<open>image.Config.Entrypoint\<close> through the \<^verbatim>\<open>nil\<close> pointer and the call panics instead
  of succeeding. So it does at line 105 when the command is empty. Only a config that
  needs neither default (the entrypoint set to nothing, the command not empty) gets past.
\<close>

theorem image_without_Config_panics:
  "InspectImage configlessEngine ''imported'' = Inr \<lparr>image_Config = None\<rparr>
   \<and> setWeaveWaitEntrypoint configlessEngine (exampleConfig ''imported'' None (Some [''top'']))
       = Inl Panic
   \<and> setWeaveWaitEntrypoint configlessEngine (exampleConfig ''imported'' None None)
       = Inl Panic
   \<and> setWeaveWaitEntrypoint configlessEngine (exampleConfig ''imported'' (Some []) None)
       = Inl Panic
   \<and> setWeaveWaitEntrypoint configlessEngine
         (exampleConfig ''imported'' (Some []) (Some [''top'']))
       = Inr (exampleConfig ''imported'' (Some [''/w/w'']) (Some [''top'']))"
  by (simp add: setWeaveWaitEntrypoint_def imageDefaults_def wrapEntrypoint_def
        configlessEngine_def exampleProxy_def exampleConfig_def len_def elems_def
        go_append_def)

text \<open>
  Claim C3, as the code has it, for an inspected image that has a \<^verbatim>\<open>Config\<close>. When the
  entrypoint is empty and the engine knows the image, the wrapping of lines 113-121 runs
  on the config with the image's command in place of an empty command and the image's
  entrypoint in place of an entrypoint that is \<^verbatim>\<open>nil\<close>; an entrypoint that is set to the
  empty sequence stays as it is. So for an image with entrypoint \<^verbatim>\<open>["/bin/sh","-c"]\<close> and no
  command, a config with no entrypoint and an empty command ends with the wrapper sequence
  followed by \<^verbatim>\<open>["/bin/sh","-c"]\<close> and with the image's empty command (for a wrapper
  sequence \<open>w # ws\<close> that does not start with \<^verbatim>\<open>/bin/sh\<close>), whereas a config whose
  entrypoint is set to the empty sequence fails with \<open>ErrNoCommandSpecified\<close>. Nothing is
  said here of an image without a \<^verbatim>\<open>Config\<close>.
\<close>

theorem image_defaults:
  assumes "len (Entrypoint c) = 0" and "InspectImage P (Image c) = Inr img"
    and "image_Config img = Some ic"
  shows "setWeaveWaitEntrypoint P c =
           wrapEntrypoint P
             (c\<lparr>Cmd := (if len (Cmd c) = 0 then image_Cmd ic else Cmd c),
                Entrypoint := (if Entrypoint c = None then image_Entrypoint ic
                               else Entrypoint c)\<rparr>)
         \<and> (Entrypoint c = None \<and> len (Cmd c) = 0
              \<and> image_Entrypoint ic = Some [''/bin/sh'', ''-c''] \<and> len (image_Cmd ic) = 0
              \<and> weaveWaitEntrypoint P = Some (w # ws) \<and> w \<noteq> ''/bin/sh'' \<longrightarrow>
            setWeaveWaitEntrypoint P c =
              Inr (c\<lparr>Cmd := image_Cmd ic,
                     Entrypoint := Some (w # ws @ [''/bin/sh'', ''-c''])\<rparr>))
         \<and> (Entrypoint c = Some [] \<and> len (Cmd c) = 0 \<and> len (image_Cmd ic) = 0 \<longrightarrow>
            setWeaveWaitEntrypoint P c = Inl ErrNoCommandSpecified)"
proof -
  have step: "setWeaveWaitEntrypoint P c =
           wrapEntrypoint P
             (c\<lparr>Cmd := (if len (Cmd c) = 0 then image_Cmd ic else Cmd c),
                Entrypoint := (if Entrypoint c = None then image_Entrypoint ic
                               else Entrypoint c)\<rparr>)"
    using assms by (simp add: setWeaveWaitEntrypoint_def imageDefaults_config)
  have unset: "setWeaveWaitEntrypoint P c =
              Inr (c\<lparr>Cmd := image_Cmd ic,
                     Entrypoint := Some (w # ws @ [''/bin/sh'', ''-c''])\<rparr>)"
    if "Entrypoint c = None" "len (Cmd c) = 0"
       "image_Entrypoint ic = Some [''/bin/sh'', ''-c'']" "len (image_Cmd ic) = 0"
       "weaveWaitEntrypoint P = Some (w # ws)" "w \<noteq> ''/bin/sh''"
    unfolding step using that
    by (simp add: wrapEntrypoint_def len_def elems_def go_append_def)
  have empty: "setWeaveWaitEntrypoint P c = Inl ErrNoCommandSpecified"
    if "Entrypoint c = Some []" "len (Cmd c) = 0" "len (image_Cmd ic) = 0"
    unfolding step using that by (simp add: wrapEntrypoint_def len_def elems_def)
  from step unset empty show ?thesis by blast
qed

theorem image_defaults_witness:
  "len (Entrypoint (exampleConfig ''busybox'' None None)) = 0
   \<and> InspectImage exampleProxy (Image (exampleConfig ''busybox'' None None)) = Inr busybox
   \<and> image_Config busybox
       = Some \<lparr>image_Cmd = Some [], image_Entrypoint = Some [''/bin/sh'', ''-c'']\<rparr>
   \<and> setWeaveWaitEntrypoint exampleProxy (exampleConfig ''busybox'' None None)
       = Inr (exampleConfig ''busybox'' (Some [''/w/w'', ''/bin/sh'', ''-c'']) (Some []))
   \<and> setWeaveWaitEntrypoint exampleProxy (exampleConfig ''busybox'' None (Some [''top'']))
       = Inr (exampleConfig ''busybox'' (Some [''/w/w'', ''/bin/sh'', ''-c'']) (Some [''top'']))
   \<and> setWeaveWaitEntrypoint exampleProxy (exampleConfig ''busybox'' (Some []) (Some [''top'']))
       = Inr (exampleConfig ''busybox'' (Some [''/w/w'']) (Some [''top'']))
   \<and> setWeaveWaitEntrypoint exampleProxy (exampleConfig ''busybox'' (Some []) None)
       = Inl ErrNoCommandSpecified"
proof -
  have l: "len (Entrypoint (exampleConfig ''busybox'' e c)) = 0" if "e = None \<or> e = Some []"
    for e c using that by (auto simp: exampleConfig_def len_def elems_def)
  have i: "InspectImage exampleProxy (Image (exampleConfig ''busybox'' e c)) = Inr busybox"
    for e c by (simp add: exampleProxy_simps exampleConfig_def)
  have b: "image_Config busybox
       = Some \<lparr>image_Cmd = Some [], image_Entrypoint = Some [''/bin/sh'', ''-c'']\<rparr>"
    by (simp add: busybox_def)
  have 1: "setWeaveWaitEntrypoint exampleProxy (exampleConfig ''busybox'' None None)
       = Inr (exampleConfig ''busybox'' (Some [''/w/w'', ''/bin/sh'', ''-c'']) (Some []))"
    using image_defaults [OF l i b, of None None "''/w/w''" "[]", THEN conjunct2, THEN conjunct1]
    by (simp add: exampleProxy_simps exampleConfig_def len_def elems_def)
  have 2: "setWeaveWaitEntrypoint exampleProxy (exampleConfig ''busybox'' None (Some [''top'']))
       = Inr (exampleConfig ''busybox'' (Some [''/w/w'', ''/bin/sh'', ''-c'']) (Some [''top'']))"
    using image_defaults [OF l i b, of None "Some [''top'']", THEN conjunct1]
    by (simp add: exampleProxy_simps exampleConfig_def len_def elems_def
          wrapEntrypoint_def go_append_def)
  have 3: "setWeaveWaitEntrypoint exampleProxy (exampleConfig ''busybox'' (Some []) (Some [''top'']))
       = Inr (exampleConfig ''busybox'' (Some [''/w/w'']) (Some [''top'']))"
    using image_defaults [OF l i b, of "Some []" "Some [''top'']", THEN conjunct1]
    by (simp add: exampleProxy_simps exampleConfig_def len_def elems_def
          wrapEntrypoint_def go_append_def)
  have 4: "setWeaveWaitEntrypoint exampleProxy (exampleConfig ''busybox'' (Some []) None)
       = Inl ErrNoCommandSpecified"
    using image_defaults [OF l i b, of "Some []" None, THEN conjunct2, THEN conjunct2]
    by (simp add: exampleConfig_def len_def elems_def)
  from l [of None None] i [of None None] b 1 2 3 4 show ?thesis by simp
qed

text \<open>
  The example of the claim with the entrypoint empty but set: entrypoint \<^verbatim>\<open>[]\<close>, command
  \<^verbatim>\<open>[]\<close>, and the image \<^verbatim>\<open>busybox\<close> with entrypoint \<^verbatim>\<open>["/bin/sh","-c"]\<close> and command \<^verbatim>\<open>[]\<close>.
  Line 108 does not take the image's entrypoint, and line 113 returns the error.
\<close>

theorem empty_entrypoint_counterexample:
  "setWeaveWaitEntrypoint exampleProxy (exampleConfig ''busybox'' (Some []) (Some []))
     = Inl ErrNoCommandSpecified
   \<and> InspectImage exampleProxy ''busybox''
       = Inr \<lparr>image_Config =
               Some \<lparr>image_Cmd = Some [], image_Entrypoint = Some [''/bin/sh'', ''-c'']\<rparr>\<rparr>"
  by (simp add: setWeaveWaitEntrypoint_def imageDefaults_def wrapEntrypoint_def
        exampleProxy_simps exampleConfig_def busybox_def len_def elems_def)

text \<open>
  Claim C4, for a wrapper sequence \<open>w # ws\<close>. After the defaults of the image, and unless
  entrypoint and command are both empty, \<open>setWeaveWaitEntrypoint\<close> puts the wrapper sequence
  in front of the entrypoint exactly when the entrypoint is empty or does not start with
  \<open>w\<close>. An entrypoint that starts with \<open>w\<close>, whatever follows, is returned as it is, and so
  is every config the function has returned: its entrypoint starts with \<open>w\<close>.
\<close>

theorem wrapper_prepended:
  assumes ww: "weaveWaitEntrypoint P = Some (w # ws)"
  shows "(imageDefaults P c = Inr c1 \<and> \<not> (len (Entrypoint c1) = 0 \<and> len (Cmd c1) = 0) \<longrightarrow>
            setWeaveWaitEntrypoint P c =
              Inr (if len (Entrypoint c1) = 0 \<or> hd (elems (Entrypoint c1)) \<noteq> w
                   then c1\<lparr>Entrypoint := Some (w # ws @ elems (Entrypoint c1))\<rparr>
                   else c1))
         \<and> (elems (Entrypoint c) = w # rest \<longrightarrow> setWeaveWaitEntrypoint P c = Inr c)
         \<and> (setWeaveWaitEntrypoint P c = Inr c' \<longrightarrow>
              hd (elems (Entrypoint c')) = w \<and> setWeaveWaitEntrypoint P c' = Inr c')"
proof -
  have l: "len (weaveWaitEntrypoint P) \<noteq> 0" and e: "elems (weaveWaitEntrypoint P) = w # ws"
    using ww by (simp_all add: len_def elems_def)
  have wrapped: "setWeaveWaitEntrypoint P d = Inr d" if "hd (elems (Entrypoint d)) = w"
    "len (Entrypoint d) \<noteq> 0" for d
    using that by (simp add: setWeaveWaitEntrypoint_def imageDefaults_nonempty
                     wrapEntrypoint_cases [OF l] e)
  have 1: "setWeaveWaitEntrypoint P c =
              Inr (if len (Entrypoint c1) = 0 \<or> hd (elems (Entrypoint c1)) \<noteq> w
                   then c1\<lparr>Entrypoint := Some (w # ws @ elems (Entrypoint c1))\<rparr>
                   else c1)"
    if "imageDefaults P c = Inr c1" "\<not> (len (Entrypoint c1) = 0 \<and> len (Cmd c1) = 0)"
    using that by (simp add: setWeaveWaitEntrypoint_def wrapEntrypoint_cases [OF l] e)
  have 2: "setWeaveWaitEntrypoint P c = Inr c" if "elems (Entrypoint c) = w # rest"
    using that by (intro wrapped) (simp_all add: len_def)
  have 3: "hd (elems (Entrypoint c')) = w \<and> setWeaveWaitEntrypoint P c' = Inr c'"
    if r: "setWeaveWaitEntrypoint P c = Inr c'"
  proof -
    from r obtain c1 where c1: "imageDefaults P c = Inr c1" "wrapEntrypoint P c1 = Inr c'"
      by (auto simp: setWeaveWaitEntrypoint_def split: sum.splits)
    from c1(2) have "hd (elems (Entrypoint c')) = w \<and> len (Entrypoint c') \<noteq> 0"
      by (auto simp: wrapEntrypoint_cases [OF l] ww len_def elems_def split: if_splits)
    with wrapped [of c'] show ?thesis by simp
  qed
  from 1 2 3 show ?thesis by blast
qed

theorem wrapper_prepended_witness:
  "weaveWaitEntrypoint exampleProxy = Some [''/w/w'']
   \<and> setWeaveWaitEntrypoint exampleProxy (exampleConfig ''busybox'' (Some [''/bin/true'']) None)
       = Inr (exampleConfig ''busybox'' (Some [''/w/w'', ''/bin/true'']) None)
   \<and> setWeaveWaitEntrypoint exampleProxy
         (exampleConfig ''busybox'' (Some [''/w/w'', ''-s'', ''/bin/true'']) None)
       = Inr (exampleConfig ''busybox'' (Some [''/w/w'', ''-s'', ''/bin/true'']) None)
   \<and> setWeaveWaitEntrypoint exampleProxy
         (exampleConfig ''busybox'' (Some [''/w/w'', ''/bin/true'']) None)
       = Inr (exampleConfig ''busybox'' (Some [''/w/w'', ''/bin/true'']) None)"
proof -
  note ww = exampleProxy_simps(1)
  let ?c = "exampleConfig ''busybox'' (Some [''/bin/true'']) None"
  have d: "imageDefaults exampleProxy ?c = Inr ?c"
    by (simp add: imageDefaults_def exampleConfig_def len_def elems_def)
  have 1: "setWeaveWaitEntrypoint exampleProxy ?c
       = Inr (exampleConfig ''busybox'' (Some [''/w/w'', ''/bin/true'']) None)"
    using wrapper_prepended [OF ww, of ?c ?c, THEN conjunct1] d
    by (simp add: exampleConfig_def len_def elems_def)
  have 2: "setWeaveWaitEntrypoint exampleProxy
         (exampleConfig ''busybox'' (Some [''/w/w'', ''-s'', ''/bin/true'']) None)
       = Inr (exampleConfig ''busybox'' (Some [''/w/w'', ''-s'', ''/bin/true'']) None)"
    using wrapper_prepended [OF ww, of "exampleConfig ''busybox'' (Some [''/w/w'', ''-s'', ''/bin/true'']) None"
                      _ "[''-s'', ''/bin/true'']", THEN conjunct2, THEN conjunct1]
    by (simp add: exampleConfig_def elems_def)
  have 3: "setWeaveWaitEntrypoint exampleProxy
         (exampleConfig ''busybox'' (Some [''/w/w'', ''/bin/true'']) None)
       = Inr (exampleConfig ''busybox'' (Some [''/w/w'', ''/bin/true'']) None)"
    using wrapper_prepended [OF ww, of ?c _ _ "exampleConfig ''busybox'' (Some [''/w/w'', ''/bin/true'']) None",
                      THEN conjunct2, THEN conjunct2] 1
    by simp
  from ww 1 2 3 show ?thesis by simp
qed

text \<open>
  Claim C10, for a wrapper sequence that is not empty. On a config whose entrypoint is not
  empty, \<open>setWeaveWaitEntrypoint\<close> succeeds and returns the config with at most the
  entrypoint changed, to the wrapper sequence followed by the old entrypoint; the command
  and every other field are as before. The result is the same whatever the inspection of
  images would answer: the engine is not asked.
\<close>

theorem nonempty_entrypoint:
  assumes "len (Entrypoint c) \<noteq> 0" and "len (weaveWaitEntrypoint P) \<noteq> 0"
  shows "setWeaveWaitEntrypoint P c =
           Inr (c\<lparr>Entrypoint :=
                   (if hd (elems (Entrypoint c)) \<noteq> hd (elems (weaveWaitEntrypoint P))
                    then Some (elems (weaveWaitEntrypoint P) @ elems (Entrypoint c))
                    else Entrypoint c)\<rparr>)
         \<and> setWeaveWaitEntrypoint (P\<lparr>InspectImage := inspect\<rparr>) c = setWeaveWaitEntrypoint P c"
proof -
  have "len (weaveWaitEntrypoint (P\<lparr>InspectImage := inspect\<rparr>)) \<noteq> 0"
    using assms(2) by simp
  then show ?thesis
    using assms
    by (simp add: setWeaveWaitEntrypoint_def imageDefaults_nonempty wrapEntrypoint_cases)
qed

theorem nonempty_entrypoint_witness:
  "len (Entrypoint (exampleConfig ''nosuch'' (Some [''/bin/true'']) (Some [''-v'']))) \<noteq> 0
   \<and> len (weaveWaitEntrypoint exampleProxy) \<noteq> 0
   \<and> InspectImage exampleProxy ''nosuch'' = Inl docker_ErrNoSuchImage
   \<and> setWeaveWaitEntrypoint exampleProxy
         (exampleConfig ''nosuch'' (Some [''/bin/true'']) (Some [''-v'']))
       = Inr (exampleConfig ''nosuch'' (Some [''/w/w'', ''/bin/true'']) (Some [''-v'']))
   \<and> setWeaveWaitEntrypoint unreachableEngine
         (exampleConfig ''nosuch'' (Some [''/bin/true'']) (Some [''-v'']))
       = Inr (exampleConfig ''nosuch'' (Some [''/w/w'', ''/bin/true'']) (Some [''-v'']))"
proof -
  let ?c = "exampleConfig ''nosuch'' (Some [''/bin/true'']) (Some [''-v''])"
  have a: "len (Entrypoint ?c) \<noteq> 0" by (simp add: exampleConfig_def len_def elems_def)
  have b: "len (weaveWaitEntrypoint exampleProxy) \<noteq> 0"
    by (simp add: exampleProxy_simps len_def elems_def)
  from nonempty_entrypoint [OF a b, of "\<lambda>name. Inl (docker_OtherError ''connection refused'')"]
  have "setWeaveWaitEntrypoint exampleProxy ?c
       = Inr (exampleConfig ''nosuch'' (Some [''/w/w'', ''/bin/true'']) (Some [''-v'']))
     \<and> setWeaveWaitEntrypoint unreachableEngine ?c = setWeaveWaitEntrypoint exampleProxy ?c"
    by (simp add: exampleProxy_simps exampleConfig_def elems_def unreachableEngine_def)
  with a b show ?thesis by (simp add: exampleProxy_simps)
qed

subsection \<open>The DNS settings\<close>

lemma TrimSuffix_period:
  "strings_TrimSuffix d ''.'' = (if d \<noteq> [] \<and> last d = CHR ''.'' then butlast d else d)"
proof (cases "d = []")
  case True
  then show ?thesis by (simp add: strings_TrimSuffix_def strings_HasSuffix_def)
next
  case False
  then have d: "d = butlast d @ [last d]" by simp
  have "drop (length d - Suc 0) d = [last d]"
    by (subst d) (simp del: append_butlast_last_id)
  moreover have "take (length d - Suc 0) d = butlast d"
    by (simp add: butlast_conv_take)
  moreover have "Suc 0 \<le> length d" using False by (cases d) auto
  ultimately show ?thesis
    using False by (simp add: strings_TrimSuffix_def strings_HasSuffix_def)
qed

lemma getDNSDomain_running:
  "snd (getDNSDomain P) \<longleftrightarrow>
     (\<exists>dnsContainer ns resp b.
        InspectContainer P ''weavedns'' = Inr dnsContainer
        \<and> NetworkSettings dnsContainer = Some ns \<and> IPAddress ns \<noteq> []
        \<and> http_Get P (''http://'' @ IPAddress ns @ '':'' @ fmt_d (DefaultHTTPPort P)
                        @ ''/domain'') = Some resp
        \<and> StatusCode resp = 200 \<and> resp_Body resp = Inr b)"
  by (auto simp: getDNSDomain_def Let_def split: sum.splits option.splits)

lemma setWeaveDNS_proceeds:
  assumes "\<not> WithoutDNS P" and "getDNSDomain P = (dnsDomain, dnsRunning)"
    and "dnsRunning \<or> WithDNS P"
    and "HostConfig container = Some hc" and "Config container = Some config"
  shows "setWeaveDNS P container r =
           (Inr (container
                   \<lparr>Config := Some (fst (setHostname dnsDomain (query_name r) config)),
                    HostConfig :=
                      Some (setDNSSearch dnsDomain
                              (Hostname (fst (setHostname dnsDomain (query_name r) config)))
                              (hc\<lparr>DNS := go_append (DNS hc) [dockerBridgeIP P]\<rparr>))\<rparr>),
            snd (setHostname dnsDomain (query_name r) config))"
  using assms by (auto simp: setWeaveDNS_def Let_def split: prod.splits)

lemma getDNSDomain_exampleProxy:
  "getDNSDomain exampleProxy = (''weave.local.'', False)"
  "getDNSDomain (exampleProxy\<lparr>WithDNS := False\<rparr>) = (''weave.local.'', False)"
  "getDNSDomain (exampleProxy\<lparr>WithoutDNS := True\<rparr>) = (''weave.local.'', False)"
  by (simp_all add: getDNSDomain_def exampleProxy_def)

lemma exampleBody_simps:
  "HostConfig exampleBody = Some \<lparr>Binds = None, DNS = None, DNSSearch = None\<rparr>"
  "Config exampleBody = Some (exampleConfig ''busybox'' None None)"
  "Hostname (exampleConfig img e c) = []"
  by (simp_all add: exampleBody_def exampleConfig_def)

text \<open>
  Claim C7. When \<open>WithoutDNS\<close> is set, or when the name service is not running and
  \<open>WithDNS\<close> is not set, \<open>setWeaveDNS\<close> returns the body it was given, whatever the body and
  the request are, and logs nothing: \<open>DNS\<close>, \<open>DNSSearch\<close>, \<open>Hostname\<close> and \<open>Domainname\<close> are
  untouched. The name service is running exactly when the \<^verbatim>\<open>weavedns\<close> container can be
  inspected, has network settings with an address, and answers the request for its domain
  with status 200 and a body that can be read.
\<close>

theorem setWeaveDNS_skipped:
  "(WithoutDNS P \<or> (\<not> snd (getDNSDomain P) \<and> \<not> WithDNS P) \<longrightarrow>
      setWeaveDNS P container r = (Inr container, []))
   \<and> (snd (getDNSDomain P) \<longleftrightarrow>
        (\<exists>dnsContainer ns resp b.
           InspectContainer P ''weavedns'' = Inr dnsContainer
           \<and> NetworkSettings dnsContainer = Some ns \<and> IPAddress ns \<noteq> []
           \<and> http_Get P (''http://'' @ IPAddress ns @ '':'' @ fmt_d (DefaultHTTPPort P)
                           @ ''/domain'') = Some resp
           \<and> StatusCode resp = 200 \<and> resp_Body resp = Inr b))"
proof -
  have "setWeaveDNS P container r = (Inr container, [])"
    if "WithoutDNS P \<or> (\<not> snd (getDNSDomain P) \<and> \<not> WithDNS P)"
    using that by (auto simp: setWeaveDNS_def split: prod.splits)
  with getDNSDomain_running [of P] show ?thesis by blast
qed

theorem setWeaveDNS_skipped_witness:
  "\<not> snd (getDNSDomain (exampleProxy\<lparr>WithDNS := False\<rparr>))
   \<and> \<not> WithDNS (exampleProxy\<lparr>WithDNS := False\<rparr>)
   \<and> setWeaveDNS (exampleProxy\<lparr>WithDNS := False\<rparr>) exampleBody (exampleRequest ''{}'' ''web'')
       = (Inr exampleBody, [])
   \<and> WithoutDNS (exampleProxy\<lparr>WithoutDNS := True\<rparr>)
   \<and> setWeaveDNS (exampleProxy\<lparr>WithoutDNS := True\<rparr>) exampleBody (exampleRequest ''{}'' ''web'')
       = (Inr exampleBody, [])"
proof -
  have a: "\<not> snd (getDNSDomain (exampleProxy\<lparr>WithDNS := False\<rparr>))"
    "\<not> WithDNS (exampleProxy\<lparr>WithDNS := False\<rparr>)"
    "WithoutDNS (exampleProxy\<lparr>WithoutDNS := True\<rparr>)"
    by (simp_all add: getDNSDomain_exampleProxy)
  from a setWeaveDNS_skipped [of "exampleProxy\<lparr>WithDNS := False\<rparr>" exampleBody
                               "exampleRequest ''{}'' ''web''", THEN conjunct1]
    setWeaveDNS_skipped [of "exampleProxy\<lparr>WithoutDNS := True\<rparr>" exampleBody
                               "exampleRequest ''{}'' ''web''", THEN conjunct1]
  show ?thesis by simp
qed

text \<open>
  Claim C6. Let the DNS step proceed (\<open>WithoutDNS\<close> is not set, and the name service runs
  or \<open>WithDNS\<close> is set) on a body whose config has no hostname, for a request with a
  \<^verbatim>\<open>name\<close>. With the domain trimmed of one period at its end, if the length of the name
  plus one plus the length of the trimmed domain is more than 64, the config is left as it
  is and the one line logged is the warning; otherwise the hostname is the name, the
  domain name is the trimmed domain, and nothing is logged. A name of 64 characters
  always leaves the config as it is. The witness has the two sides of the limit: with the
  domain \<^verbatim>\<open>weave.local.\<close> a name of 52 characters (64 in all) is taken, one of 53 (65 in
  all) is not.
\<close>

theorem hostname_from_name:
  assumes "\<not> WithoutDNS P" and "getDNSDomain P = (dnsDomain, dnsRunning)"
    and "dnsRunning \<or> WithDNS P"
    and "HostConfig container = Some hc" and "Config container = Some config"
    and "Hostname config = []" and "query_name r \<noteq> []"
  shows "\<exists>container'.
           setWeaveDNS P container r =
             (Inr container',
              if length (query_name r) + 1 + length (strings_TrimSuffix dnsDomain ''.'') > 64
              then [Warning (''Container name ['' @ query_name r
                             @ ''] too long to be used as hostname'')]
              else [])
           \<and> Config container' =
               Some (if length (query_name r) + 1 + length (strings_TrimSuffix dnsDomain ''.'')
                          > 64
                     then config
                     else config\<lparr>Hostname := query_name r,
                                 Domainname := strings_TrimSuffix dnsDomain ''.''\<rparr>)
           \<and> (length (query_name r) = 64 \<longrightarrow> Config container' = Some config)
           \<and> strings_TrimSuffix dnsDomain ''.''
               = (if dnsDomain \<noteq> [] \<and> last dnsDomain = CHR ''.'' then butlast dnsDomain
                  else dnsDomain)"
  using assms(6,7) TrimSuffix_period [of dnsDomain]
  unfolding setWeaveDNS_proceeds [OF assms(1-5)]
  by (simp add: setHostname_def MaxDockerHostname_def Let_def)

theorem hostname_from_name_witness:
  "(\<exists>container'.
      setWeaveDNS exampleProxy exampleBody (exampleRequest ''{}'' (replicate 52 (CHR ''a'')))
        = (Inr container', [])
      \<and> Config container' =
          Some ((exampleConfig ''busybox'' None None)
                  \<lparr>Hostname := replicate 52 (CHR ''a''), Domainname := ''weave.local''\<rparr>))
   \<and> (\<exists>container'.
        setWeaveDNS exampleProxy exampleBody (exampleRequest ''{}'' (replicate 53 (CHR ''a'')))
          = (Inr container',
             [Warning (''Container name ['' @ replicate 53 (CHR ''a'')
                       @ ''] too long to be used as hostname'')])
        \<and> Config container' = Some (exampleConfig ''busybox'' None None))
   \<and> (\<exists>container' logged.
        setWeaveDNS exampleProxy exampleBody (exampleRequest ''{}'' (replicate 64 (CHR ''a'')))
          = (Inr container', logged)
        \<and> Config container' = Some (exampleConfig ''busybox'' None None))"
proof -
  have t: "strings_TrimSuffix ''weave.local.'' ''.'' = ''weave.local''"
    by (simp add: strings_TrimSuffix_def strings_HasSuffix_def)
  have q: "query_name (exampleRequest b n) = n" for b n
    by (simp add: exampleRequest_def)
  have p: "\<not> WithoutDNS exampleProxy" "getDNSDomain exampleProxy = (''weave.local.'', False)"
    "False \<or> WithDNS exampleProxy"
    by (simp_all add: exampleProxy_simps getDNSDomain_exampleProxy)
  note h = hostname_from_name [OF p exampleBody_simps]
  have n: "query_name (exampleRequest ''{}'' (replicate k (CHR ''a''))) \<noteq> []" if "0 < k" for k
    using that by (simp add: q)
  from h [OF n, of 52] have 1: "\<exists>container'.
      setWeaveDNS exampleProxy exampleBody (exampleRequest ''{}'' (replicate 52 (CHR ''a'')))
        = (Inr container', [])
      \<and> Config container' =
          Some ((exampleConfig ''busybox'' None None)
                  \<lparr>Hostname := replicate 52 (CHR ''a''), Domainname := ''weave.local''\<rparr>)"
    by (simp add: q t)
  from h [OF n, of 53] have 2: "\<exists>container'.
        setWeaveDNS exampleProxy exampleBody (exampleRequest ''{}'' (replicate 53 (CHR ''a'')))
          = (Inr container',
             [Warning (''Container name ['' @ replicate 53 (CHR ''a'')
                       @ ''] too long to be used as hostname'')])
        \<and> Config container' = Some (exampleConfig ''busybox'' None None)"
    by (simp add: q t)
  from h [OF n, of 64] have 3: "\<exists>container' logged.
        setWeaveDNS exampleProxy exampleBody (exampleRequest ''{}'' (replicate 64 (CHR ''a'')))
          = (Inr container', logged)
        \<and> Config container' = Some (exampleConfig ''busybox'' None None)"
    by (simp add: q t) blast
  from 1 2 3 show ?thesis by (intro conjI)
qed

text \<open>
  Claim C8. When the DNS step proceeds, a \<open>DNSSearch\<close> that is empty becomes the one
  domain of the name service (as \<open>getDNSDomain\<close> gave it) if the hostname is empty after
  lines 137-146, and \<^verbatim>\<open>["."]\<close> otherwise; a \<open>DNSSearch\<close> that is not empty stays. The hostname
  is empty after those lines exactly when it was empty before and the request had no name
  or one too long.
\<close>

theorem dns_search_default:
  assumes "\<not> WithoutDNS P" and "getDNSDomain P = (dnsDomain, dnsRunning)"
    and "dnsRunning \<or> WithDNS P"
    and "HostConfig container = Some hc" and "Config container = Some config"
  shows "\<exists>container' config' hc' logged.
           setWeaveDNS P container r = (Inr container', logged)
           \<and> Config container' = Some config' \<and> HostConfig container' = Some hc'
           \<and> DNSSearch hc' =
               (if len (DNSSearch hc) = 0
                then (if Hostname config' = [] then Some [dnsDomain] else Some [''.''])
                else DNSSearch hc)
           \<and> (Hostname config' = [] \<longleftrightarrow>
                Hostname config = []
                \<and> (query_name r = []
                    \<or> length (query_name r) + 1 + length (strings_TrimSuffix dnsDomain ''.'')
                         > 64))"
  unfolding setWeaveDNS_proceeds [OF assms]
  by (auto simp: setHostname_def setDNSSearch_def MaxDockerHostname_def Let_def len_def
        elems_def)

theorem dns_search_default_witness:
  "(\<exists>container' config' hc' logged.
      setWeaveDNS exampleProxy exampleBody (exampleRequest ''{}'' ''web'')
        = (Inr container', logged)
      \<and> Config container' = Some config' \<and> HostConfig container' = Some hc'
      \<and> Hostname config' \<noteq> [] \<and> DNSSearch hc' = Some [''.''])
   \<and> (\<exists>container' config' hc' logged.
        setWeaveDNS exampleProxy exampleBody (exampleRequest ''{}'' [])
          = (Inr container', logged)
        \<and> Config container' = Some config' \<and> HostConfig container' = Some hc'
        \<and> Hostname config' = [] \<and> DNSSearch hc' = Some [''weave.local.''])
   \<and> (\<exists>container' config' hc' logged.
        setWeaveDNS exampleProxy
            (exampleBody\<lparr>HostConfig :=
               Some \<lparr>Binds = None, DNS = None, DNSSearch = Some [''example.org'']\<rparr>\<rparr>)
            (exampleRequest ''{}'' ''web'')
          = (Inr container', logged)
        \<and> Config container' = Some config' \<and> HostConfig container' = Some hc'
        \<and> DNSSearch hc' = Some [''example.org''])"
proof -
  have t: "strings_TrimSuffix ''weave.local.'' ''.'' = ''weave.local''"
    by (simp add: strings_TrimSuffix_def strings_HasSuffix_def)
  have q: "query_name (exampleRequest b n) = n" for b n
    by (simp add: exampleRequest_def)
  have p: "\<not> WithoutDNS exampleProxy" "getDNSDomain exampleProxy = (''weave.local.'', False)"
    "False \<or> WithDNS exampleProxy"
    by (simp_all add: exampleProxy_simps getDNSDomain_exampleProxy)
  from dns_search_default [OF p exampleBody_simps(1,2), of "exampleRequest ''{}'' ''web''"]
  have 1: "\<exists>container' config' hc' logged.
      setWeaveDNS exampleProxy exampleBody (exampleRequest ''{}'' ''web'')
        = (Inr container', logged)
      \<and> Config container' = Some config' \<and> HostConfig container' = Some hc'
      \<and> Hostname config' \<noteq> [] \<and> DNSSearch hc' = Some [''.'']"
    by (simp add: q t exampleBody_simps len_def elems_def) metis
  from dns_search_default [OF p exampleBody_simps(1,2), of "exampleRequest ''{}'' []"]
  have 2: "\<exists>container' config' hc' logged.
        setWeaveDNS exampleProxy exampleBody (exampleRequest ''{}'' [])
          = (Inr container', logged)
        \<and> Config container' = Some config' \<and> HostConfig container' = Some hc'
        \<and> Hostname config' = [] \<and> DNSSearch hc' = Some [''weave.local.'']"
    by (simp add: q t exampleBody_simps len_def elems_def) metis
  have b: "HostConfig (exampleBody\<lparr>HostConfig :=
               Some \<lparr>Binds = None, DNS = None, DNSSearch = Some [''example.org'']\<rparr>\<rparr>)
            = Some \<lparr>Binds = None, DNS = None, DNSSearch = Some [''example.org'']\<rparr>"
    "Config (exampleBody\<lparr>HostConfig :=
               Some \<lparr>Binds = None, DNS = None, DNSSearch = Some [''example.org'']\<rparr>\<rparr>)
            = Some (exampleConfig ''busybox'' None None)"
    by (simp_all add: exampleBody_simps)
  from dns_search_default [OF p b, of "exampleRequest ''{}'' ''web''"]
  have 3: "\<exists>container' config' hc' logged.
        setWeaveDNS exampleProxy
            (exampleBody\<lparr>HostConfig :=
               Some \<lparr>Binds = None, DNS = None, DNSSearch = Some [''example.org'']\<rparr>\<rparr>)
            (exampleRequest ''{}'' ''web'')
          = (Inr container', logged)
        \<and> Config container' = Some config' \<and> HostConfig container' = Some hc'
        \<and> DNSSearch hc' = Some [''example.org'']"
    by (simp add: q t len_def elems_def) metis
  from 1 2 3 show ?thesis by (intro conjI)
qed

subsection \<open>The request\<close>

lemma mutate_declined:
  "weaveCIDRsFromConfig P (Config container) (HostConfig container) = Inl err \<Longrightarrow>
   mutate P r container = (Inr container, [Info (''Ignoring container due to '' @ err)])"
  by (simp add: mutate_def)

lemma InterceptRequest_documents:
  "Body r = Inr body \<Longrightarrow> json_scan P body = Inr j \<Longrightarrow>
   InterceptRequest P r =
     (case decode_mutate_encode P r j of
        (Inl err, logged) \<Rightarrow> (Inl err, logged)
      | (Inr j', logged) \<Rightarrow>
          (Inr (r\<lparr>Body := Inr (json_print P j'),
                  ContentLength := int (length (json_print P j'))\<rparr>),
           logged))"
  by (auto simp: InterceptRequest_def decode_mutate_encode_def json_Unmarshal_def
        json_Marshal_def split: sum.splits prod.splits)

lemma decliningProxy_simps:
  "weaveCIDRsFromConfig decliningProxy config hostConfig = Inl ''no WEAVE_CIDR''"
  "json_scan decliningProxy = example_scan"
  "json_print decliningProxy = example_print"
  "config_store decliningProxy = example_config_store"
  "config_members decliningProxy = example_config_members"
  "hostConfig_load decliningProxy = example_hostConfig_load"
  "hostConfig_dump decliningProxy = example_hostConfig_dump"
  "config_rest0 decliningProxy = ()"
  "hostConfig_rest0 decliningProxy = ()"
  by (simp_all add: decliningProxy_def exampleProxy_def)

lemma example_scan_simps:
  "example_scan ''{}'' = Inr (JObject [])"
  "example_scan ''{\"MacAddress\":\"\"}'' = Inr (JObject [(''MacAddress'', JString [])])"
  "example_scan ''{\"Image\":\"busybox\",\"Cmd\":[\"top\"]}''
     = Inr (JObject [(''Image'', JString ''busybox''), (''Cmd'', JArray [JString ''top''])])"
  by (simp_all add: example_scan_def example_documents_def)

lemma equalFold_examples:
  "\<not> equalFold ''HostConfig'' ''Image''" "\<not> equalFold ''MacAddress'' ''Image''"
  "\<not> equalFold ''HostConfig'' ''Cmd''" "\<not> equalFold ''MacAddress'' ''Cmd''"
  "\<not> equalFold ''HostConfig'' ''MacAddress''" "equalFold ''MacAddress'' ''MacAddress''"
  by (simp_all add: equalFold_def lower_ascii_def)

lemma Unmarshal_top:
  "json_Unmarshal decliningProxy ''{\"Image\":\"busybox\",\"Cmd\":[\"top\"]}'' = Inr topBody"
  by (simp add: json_Unmarshal_def decliningProxy_simps example_scan_simps fromJSON_def
        store_member_def equalFold_examples example_config_store_def
        example_string_field_def example_slice_field_def new_Config_def topBody_def
        exampleConfig_def)

lemma Marshal_top:
  "json_Marshal decliningProxy topBody
     = Inr ''{\"Cmd\":[\"top\"],\"Image\":\"busybox\",\"Entrypoint\":null}''"
  by (simp add: json_Marshal_def toJSON_def decliningProxy_simps topBody_def
        exampleConfig_def example_config_members_def example_omitempty_def
        example_slice_json_def)

text \<open>
  Claim C9. When \<open>weaveCIDRsFromConfig\<close> returns an error, the error is not returned:
  the decoded body goes through lines 54-71 unchanged (no volume, no wrapper, no DNS
  setting), the one line logged is \<^verbatim>\<open>Ignoring container due to ...\<close>, and the request is
  forwarded with the body \<^verbatim>\<open>json.Marshal\<close> gives for the decoded body and with that body's
  length as its content length. The only error left is one of \<^verbatim>\<open>json.Marshal\<close> itself.
\<close>

theorem declined_container:
  assumes "Body r = Inr body" and "json_Unmarshal P body = Inr container"
    and "weaveCIDRsFromConfig P (Config container) (HostConfig container) = Inl err"
  shows "mutate P r container = (Inr container, [Info (''Ignoring container due to '' @ err)])
         \<and> InterceptRequest P r =
             (case json_Marshal P container of
                Inl e \<Rightarrow> (Inl (JSONError e), [Info (''Ignoring container due to '' @ err)])
              | Inr newBody \<Rightarrow>
                  (Inr (r\<lparr>Body := Inr newBody, ContentLength := int (length newBody)\<rparr>),
                   [Info (''Ignoring container due to '' @ err)]))
         \<and> (json_Marshal P container = Inr newBody \<longrightarrow>
              InterceptRequest P r =
                (Inr (r\<lparr>Body := Inr newBody, ContentLength := int (length newBody)\<rparr>),
                 [Info (''Ignoring container due to '' @ err)]))"
  using assms by (simp add: InterceptRequest_def mutate_declined split: sum.splits)

theorem declined_container_witness:
  "InterceptRequest decliningProxy
       (exampleRequest ''{\"Image\":\"busybox\",\"Cmd\":[\"top\"]}'' ''web'')
     = (Inr \<lparr>Body = Inr ''{\"Cmd\":[\"top\"],\"Image\":\"busybox\",\"Entrypoint\":null}'',
             ContentLength = 51, query_name = ''web''\<rparr>,
        [Info ''Ignoring container due to no WEAVE_CIDR''])
   \<and> mutate decliningProxy
         (exampleRequest ''{\"Image\":\"busybox\",\"Cmd\":[\"top\"]}'' ''web'') topBody
       = (Inr topBody, [Info ''Ignoring container due to no WEAVE_CIDR''])"
proof -
  have b: "Body (exampleRequest ''{\"Image\":\"busybox\",\"Cmd\":[\"top\"]}'' ''web'')
             = Inr ''{\"Image\":\"busybox\",\"Cmd\":[\"top\"]}''"
    by (simp add: exampleRequest_def)
  from declined_container [OF b Unmarshal_top decliningProxy_simps(1)] Marshal_top
  show ?thesis by (simp add: exampleRequest_def)
qed

subsection \<open>The body on the wire\<close>

lemma store_members_append:
  "store_members P (ms @ ns) container =
     (case store_members P ms container of
        Inl err \<Rightarrow> Inl err
      | Inr container' \<Rightarrow> store_members P ns container')"
  by (induction ms arbitrary: container) (auto split: sum.splits)

lemma store_member_unknown:
  "\<not> equalFold ''HostConfig'' k \<Longrightarrow> \<not> equalFold ''MacAddress'' k \<Longrightarrow>
   \<forall>v c. config_store P k v c = None \<Longrightarrow>
   store_member P (k, v) container = Inr container"
  by (simp add: store_member_def)

lemma fromJSON_unknown:
  assumes "\<not> equalFold ''HostConfig'' k" and "\<not> equalFold ''MacAddress'' k"
    and "\<forall>v c. config_store P k v c = None"
  shows "fromJSON P (JObject (ms @ (k, v) # ns)) = fromJSON P (JObject (ms @ ns))"
  using assms
  by (simp add: fromJSON_def store_members_append store_member_unknown split: sum.splits)

lemma toJSON_MacAddress:
  assumes "toJSON P container = Inr j"
  shows "\<exists>ms. j = JObject ms
           \<and> map_of ms ''MacAddress'' =
               (if MacAddress container = [] then None
                else Some (JString (MacAddress container)))"
proof -
  have f: "map_of (filter (\<lambda>m. fst m \<noteq> ''HostConfig'' \<and> fst m \<noteq> ''MacAddress'') cms)
             ''MacAddress'' = None" for cms :: "(string \<times> json) list"
    by (induction cms) auto
  from assms show ?thesis
    by (auto simp: toJSON_def map_add_def f split: sum.splits option.splits)
qed

lemma setWeaveWaitEntrypoint_frame:
  "setWeaveWaitEntrypoint P c = Inr c' \<Longrightarrow>
   c' = c\<lparr>Cmd := Cmd c', Entrypoint := Entrypoint c'\<rparr>"
  by (auto simp: setWeaveWaitEntrypoint_def imageDefaults_def wrapEntrypoint_def Let_def
        split: sum.splits option.splits if_splits)

lemma setHostname_frame:
  "fst (setHostname d n c) = c\<lparr>Hostname := Hostname (fst (setHostname d n c)),
                               Domainname := Domainname (fst (setHostname d n c))\<rparr>"
  by (simp add: setHostname_def Let_def)

lemma setDNSSearch_frame:
  "setDNSSearch d h (hc\<lparr>DNS := x\<rparr>) =
     hc\<lparr>DNS := DNS (setDNSSearch d h (hc\<lparr>DNS := x\<rparr>)),
         DNSSearch := DNSSearch (setDNSSearch d h (hc\<lparr>DNS := x\<rparr>))\<rparr>"
  by (simp add: setDNSSearch_def)

lemma setWeaveDNS_frame:
  assumes "setWeaveDNS P container r = (Inr container', logged)"
    and "Config container = Some config" and "HostConfig container = Some hc"
  shows "\<exists>config' hc'.
           container' = container\<lparr>Config := Some config', HostConfig := Some hc'\<rparr>
           \<and> config' = config\<lparr>Hostname := Hostname config', Domainname := Domainname config'\<rparr>
           \<and> hc' = hc\<lparr>DNS := DNS hc', DNSSearch := DNSSearch hc'\<rparr>"
proof (cases "WithoutDNS P \<or> (\<not> snd (getDNSDomain P) \<and> \<not> WithDNS P)")
  case True
  then have "setWeaveDNS P container r = (Inr container, [])"
    by (auto simp: setWeaveDNS_def split: prod.splits)
  with assms have "container' = container" by simp
  with assms(2,3) show ?thesis
    by (intro exI [of _ config] exI [of _ hc]) simp
next
  case False
  then have p: "\<not> WithoutDNS P" "getDNSDomain P = (fst (getDNSDomain P), snd (getDNSDomain P))"
    "snd (getDNSDomain P) \<or> WithDNS P" by auto
  let ?c = "fst (setHostname (fst (getDNSDomain P)) (query_name r) config)"
  let ?h = "setDNSSearch (fst (getDNSDomain P)) (Hostname ?c)
              (hc\<lparr>DNS := go_append (DNS hc) [dockerBridgeIP P]\<rparr>)"
  from assms(1) have "container' = container\<lparr>Config := Some ?c, HostConfig := Some ?h\<rparr>"
    unfolding setWeaveDNS_proceeds [OF p assms(3,2)] by simp
  with setHostname_frame [of "fst (getDNSDomain P)" "query_name r" config]
    setDNSSearch_frame [where d = "fst (getDNSDomain P)" and h = "Hostname ?c" and hc = hc
                          and x = "go_append (DNS hc) [dockerBridgeIP P]"]
  show ?thesis by blast
qed


lemma mutate_frame:
  assumes m: "mutate P r container = (Inr container', logged)"
  shows "(\<exists>err. weaveCIDRsFromConfig P (Config container) (HostConfig container) = Inl err
                \<and> container' = container)
         \<or> (\<exists>cidrs config' hc'.
               weaveCIDRsFromConfig P (Config container) (HostConfig container) = Inr cidrs
               \<and> container' = container\<lparr>Config := Some config', HostConfig := Some hc'\<rparr>
               \<and> config' =
                   (case Config container of None \<Rightarrow> new_Config P | Some c \<Rightarrow> c)
                     \<lparr>Hostname := Hostname config', Domainname := Domainname config',
                      Cmd := Cmd config', Entrypoint := Entrypoint config'\<rparr>
               \<and> hc' =
                   (case HostConfig container of None \<Rightarrow> new_HostConfig P | Some h \<Rightarrow> h)
                     \<lparr>Binds := Binds hc', DNS := DNS hc', DNSSearch := DNSSearch hc'\<rparr>)"
proof (cases "weaveCIDRsFromConfig P (Config container) (HostConfig container)")
  case (Inl err)
  with m show ?thesis by (simp add: mutate_declined)
next
  case (Inr cidrs)
  let ?c0 = "case Config container of None \<Rightarrow> new_Config P | Some c \<Rightarrow> c"
  let ?h0 = "case HostConfig container of None \<Rightarrow> new_HostConfig P | Some h \<Rightarrow> h"
  from m Inr obtain config1 logged' where
    e: "setWeaveWaitEntrypoint P ?c0 = Inr config1" and
    d: "setWeaveDNS P (container\<lparr>Config := Some config1,
                                  HostConfig := Some (addWeaveWaitVolume P ?h0)\<rparr>) r
          = (Inr container', logged')"
    by (auto simp: mutate_def Let_def split: sum.splits prod.splits)
  have "\<exists>config' hc'.
          container' = container\<lparr>Config := Some config', HostConfig := Some hc'\<rparr>
          \<and> config' = config1\<lparr>Hostname := Hostname config', Domainname := Domainname config'\<rparr>
          \<and> hc' = (addWeaveWaitVolume P ?h0)\<lparr>DNS := DNS hc', DNSSearch := DNSSearch hc'\<rparr>"
    using setWeaveDNS_frame [OF d, of config1 "addWeaveWaitVolume P ?h0"] by simp
  then obtain config' hc' where
    c: "container' = container\<lparr>Config := Some config', HostConfig := Some hc'\<rparr>" and
    fc: "config' = config1\<lparr>Hostname := Hostname config', Domainname := Domainname config'\<rparr>" and
    fh: "hc' = (addWeaveWaitVolume P ?h0)\<lparr>DNS := DNS hc', DNSSearch := DNSSearch hc'\<rparr>"
    by blast
  from fc obtain a b where c': "config' = config1\<lparr>Hostname := a, Domainname := b\<rparr>" by blast
  from setWeaveWaitEntrypoint_frame [OF e] obtain x y where
    c1: "config1 = ?c0\<lparr>Cmd := x, Entrypoint := y\<rparr>" by blast
  from fh obtain u v where h': "hc' = (addWeaveWaitVolume P ?h0)\<lparr>DNS := u, DNSSearch := v\<rparr>"
    by blast
  have "config' = ?c0\<lparr>Hostname := Hostname config', Domainname := Domainname config',
                        Cmd := Cmd config', Entrypoint := Entrypoint config'\<rparr>"
    by (simp add: c' c1)
  moreover have "hc' = ?h0\<lparr>Binds := Binds hc', DNS := DNS hc', DNSSearch := DNSSearch hc'\<rparr>"
    by (simp add: h' addWeaveWaitVolume_filter)
  ultimately show ?thesis using Inr c by blast
qed

lemma mutate_example:
  "mutate exampleProxy (exampleRequest [] ''web'') (topBody\<lparr>MacAddress := ''02:42:ac:11:00:02''\<rparr>)
   = (Inr \<lparr>Config =
            Some \<lparr>Hostname = ''web'', Domainname = ''weave.local'', Cmd = Some [''top''],
                  Image = ''busybox'', Entrypoint = Some [''/w/w'', ''/bin/sh'', ''-c'']\<rparr>,
           HostConfig =
            Some \<lparr>Binds = Some [''/var/lib/weave/w:/w:ro''], DNS = Some [''172.17.42.1''],
                  DNSSearch = Some [''.'']\<rparr>,
           MacAddress = ''02:42:ac:11:00:02''\<rparr>,
      [Info ''Creating container with WEAVE_CIDR \"\"''])"
  by (simp add: mutate_def topBody_def exampleConfig_def exampleProxy_def new_HostConfig_def
        addWeaveWaitVolume_filter elems_def len_def setWeaveWaitEntrypoint_def imageDefaults_def
        wrapEntrypoint_def busybox_def go_append_def setWeaveDNS_def getDNSDomain_def
        setHostname_def setDNSSearch_def exampleRequest_def strings_TrimSuffix_def
        strings_HasSuffix_def MaxDockerHostname_def Let_def)


lemma fromJSON_examples:
  "fromJSON decliningProxy (JObject [(''MacAddress'', JString [])])
     = Inr \<lparr>Config = None, HostConfig = None, MacAddress = []\<rparr>"
  "fromJSON decliningProxy (JObject [(''MacAddress'', JString ''02:42:ac:11:00:02'')])
     = Inr \<lparr>Config = None, HostConfig = None, MacAddress = ''02:42:ac:11:00:02''\<rparr>"
  by (simp_all add: fromJSON_def store_member_def equalFold_examples)

lemma toJSON_examples:
  "toJSON decliningProxy \<lparr>Config = None, HostConfig = None, MacAddress = m\<rparr>
     = Inr (JObject (if m = [] then [] else [(''MacAddress'', JString m)]))"
  by (simp add: toJSON_def)

text \<open>
  Claim C1, as the code has it.
  \<^item> Between decoding and encoding (\<open>mutate\<close>), the only fields that change are the ones
    the interceptor assigns: \<open>Hostname\<close>, \<open>Domainname\<close>, \<open>Cmd\<close> and \<open>Entrypoint\<close> of the
    config, \<open>Binds\<close>, \<open>DNS\<close> and \<open>DNSSearch\<close> of the host configuration. \<open>MacAddress\<close>,
    \<open>Image\<close> and every field of \<^verbatim>\<open>docker.Config\<close> and \<^verbatim>\<open>docker.HostConfig\<close> that the records
    do not name are as decoded (or zero, when the struct was allocated at lines 58-63).
  \<^item> When the address resolver declines, nothing changes at all: the document that leaves
    is the encoding of the very body that was decoded.
  \<^item> What the encoding says of \<open>MacAddress\<close> is the string when it is not empty and
    nothing when it is (\<^verbatim>\<open>omitempty\<close>, line 28).
  \<^item> A member of the input whose key names no field (not \<^verbatim>\<open>HostConfig\<close> or \<^verbatim>\<open>MacAddress\<close>
    up to case, and no field of \<^verbatim>\<open>docker.Config\<close>) is skipped by the decoder: the decoded
    body is the one of the input without that member.
  \<^item> \<open>InterceptRequest\<close> is this pipeline between the scanning and the printing of the
    bytes.
\<close>

theorem untouched_fields:
  "(mutate P r container = (Inr container', logged) \<longrightarrow>
      MacAddress container' = MacAddress container
      \<and> ((\<exists>err. weaveCIDRsFromConfig P (Config container) (HostConfig container) = Inl err
                 \<and> container' = container)
          \<or> (\<exists>cidrs config' hc'.
                weaveCIDRsFromConfig P (Config container) (HostConfig container) = Inr cidrs
                \<and> Config container' = Some config' \<and> HostConfig container' = Some hc'
                \<and> config' =
                    (case Config container of None \<Rightarrow> new_Config P | Some c \<Rightarrow> c)
                      \<lparr>Hostname := Hostname config', Domainname := Domainname config',
                       Cmd := Cmd config', Entrypoint := Entrypoint config'\<rparr>
                \<and> hc' =
                    (case HostConfig container of None \<Rightarrow> new_HostConfig P | Some h \<Rightarrow> h)
                      \<lparr>Binds := Binds hc', DNS := DNS hc', DNSSearch := DNSSearch hc'\<rparr>)))
   \<and> (fromJSON P j = Inr container
        \<and> weaveCIDRsFromConfig P (Config container) (HostConfig container) = Inl err \<longrightarrow>
        fst (decode_mutate_encode P r j) =
          (case toJSON P container of Inl e \<Rightarrow> Inl (JSONError e) | Inr j' \<Rightarrow> Inr j'))
   \<and> (toJSON P container = Inr j' \<longrightarrow>
        (\<exists>ms. j' = JObject ms
           \<and> map_of ms ''MacAddress'' =
               (if MacAddress container = [] then None
                else Some (JString (MacAddress container)))))
   \<and> (\<not> equalFold ''HostConfig'' k \<and> \<not> equalFold ''MacAddress'' k
        \<and> (\<forall>v c. config_store P k v c = None) \<longrightarrow>
        fromJSON P (JObject (ms1 @ (k, v) # ms2)) = fromJSON P (JObject (ms1 @ ms2)))
   \<and> (Body r = Inr body \<and> json_scan P body = Inr j \<longrightarrow>
        InterceptRequest P r =
          (case decode_mutate_encode P r j of
             (Inl e, lg) \<Rightarrow> (Inl e, lg)
           | (Inr j', lg) \<Rightarrow>
               (Inr (r\<lparr>Body := Inr (json_print P j'),
                       ContentLength := int (length (json_print P j'))\<rparr>),
                lg)))"
proof -
  have 1: "MacAddress container' = MacAddress container
      \<and> ((\<exists>err. weaveCIDRsFromConfig P (Config container) (HostConfig container) = Inl err
                 \<and> container' = container)
          \<or> (\<exists>cidrs config' hc'.
                weaveCIDRsFromConfig P (Config container) (HostConfig container) = Inr cidrs
                \<and> Config container' = Some config' \<and> HostConfig container' = Some hc'
                \<and> config' =
                    (case Config container of None \<Rightarrow> new_Config P | Some c \<Rightarrow> c)
                      \<lparr>Hostname := Hostname config', Domainname := Domainname config',
                       Cmd := Cmd config', Entrypoint := Entrypoint config'\<rparr>
                \<and> hc' =
                    (case HostConfig container of None \<Rightarrow> new_HostConfig P | Some h \<Rightarrow> h)
                      \<lparr>Binds := Binds hc', DNS := DNS hc', DNSSearch := DNSSearch hc'\<rparr>))"
    if "mutate P r container = (Inr container', logged)"
    using mutate_frame [OF that] by (elim disjE exE conjE) simp_all
  have 2: "fst (decode_mutate_encode P r j) =
          (case toJSON P container of Inl e \<Rightarrow> Inl (JSONError e) | Inr j' \<Rightarrow> Inr j')"
    if "fromJSON P j = Inr container"
      "weaveCIDRsFromConfig P (Config container) (HostConfig container) = Inl err"
    using that by (simp add: decode_mutate_encode_def mutate_declined split: sum.splits)
  show ?thesis
    using 1 2 toJSON_MacAddress [of P container j'] fromJSON_unknown [of k P ms1 v ms2]
      InterceptRequest_documents [of r body P j]
    by blast
qed

theorem untouched_fields_witness:
  "(\<exists>container' config' hc'.
      fst (mutate exampleProxy (exampleRequest [] ''web'')
             (topBody\<lparr>MacAddress := ''02:42:ac:11:00:02''\<rparr>)) = Inr container'
      \<and> MacAddress container' = ''02:42:ac:11:00:02''
      \<and> Config container' = Some config' \<and> HostConfig container' = Some hc'
      \<and> Image config' = ''busybox'')
   \<and> fst (decode_mutate_encode decliningProxy (exampleRequest [] ''web'')
            (JObject [(''MacAddress'', JString ''02:42:ac:11:00:02'')]))
       = Inr (JObject [(''MacAddress'', JString ''02:42:ac:11:00:02'')])
   \<and> fromJSON decliningProxy
         (JObject [(''MacAddress'', JString ''02:42:ac:11:00:02''), (''Foo'', JObject [])])
       = fromJSON decliningProxy (JObject [(''MacAddress'', JString ''02:42:ac:11:00:02'')])
   \<and> InterceptRequest decliningProxy (exampleRequest ''{}'' ''web'')
       = (Inr (exampleRequest ''{}'' ''web''),
          [Info ''Ignoring container due to no WEAVE_CIDR''])"
proof -
  let ?r = "exampleRequest [] ''web''"
  let ?mac = "''02:42:ac:11:00:02''"
  let ?known = "\<lparr>Config = None, HostConfig = None, MacAddress = ?mac\<rparr>
                 :: (unit, unit) createContainerRequestBody"
  note m = mutate_example
  from untouched_fields [where P = exampleProxy and r = ?r
                           and container = "topBody\<lparr>MacAddress := ?mac\<rparr>",
                         THEN conjunct1, rule_format, OF m]
  have 1: "\<exists>container' config' hc'.
      fst (mutate exampleProxy ?r (topBody\<lparr>MacAddress := ?mac\<rparr>)) = Inr container'
      \<and> MacAddress container' = ?mac
      \<and> Config container' = Some config' \<and> HostConfig container' = Some hc'
      \<and> Image config' = ''busybox''"
    by (simp add: m)
  from untouched_fields [where P = decliningProxy and r = ?r and container = ?known
                           and j = "JObject [(''MacAddress'', JString ?mac)]"
                           and err = "''no WEAVE_CIDR''",
                         THEN conjunct2, THEN conjunct1]
  have 2: "fst (decode_mutate_encode decliningProxy ?r (JObject [(''MacAddress'', JString ?mac)]))
       = Inr (JObject [(''MacAddress'', JString ?mac)])"
    by (simp add: fromJSON_examples toJSON_examples decliningProxy_simps)
  have f: "\<not> equalFold ''HostConfig'' ''Foo''" "\<not> equalFold ''MacAddress'' ''Foo''"
    "\<forall>v c. config_store decliningProxy ''Foo'' v c = None"
    by (simp_all add: equalFold_def lower_ascii_def decliningProxy_simps
          example_config_store_def)
  from untouched_fields [where P = decliningProxy and k = "''Foo''" and v = "JObject []"
                           and ?ms1.0 = "[(''MacAddress'', JString ?mac)]" and ?ms2.0 = "[]",
                         THEN conjunct2, THEN conjunct2, THEN conjunct2, THEN conjunct1] f
  have 3: "fromJSON decliningProxy
         (JObject [(''MacAddress'', JString ?mac), (''Foo'', JObject [])])
       = fromJSON decliningProxy (JObject [(''MacAddress'', JString ?mac)])"
    by simp
  have e: "fst (decode_mutate_encode decliningProxy (exampleRequest ''{}'' ''web'') (JObject []))
             = Inr (JObject [])"
    "snd (decode_mutate_encode decliningProxy (exampleRequest ''{}'' ''web'') (JObject []))
             = [Info ''Ignoring container due to no WEAVE_CIDR'']"
    by (simp_all add: decode_mutate_encode_def fromJSON_def mutate_declined
          decliningProxy_simps toJSON_def)
  from untouched_fields [where P = decliningProxy and r = "exampleRequest ''{}'' ''web''"
                           and body = "''{}''" and j = "JObject []",
                         THEN conjunct2, THEN conjunct2, THEN conjunct2, THEN conjunct2]
  have 4: "InterceptRequest decliningProxy (exampleRequest ''{}'' ''web'')
       = (Inr (exampleRequest ''{}'' ''web''),
          [Info ''Ignoring container due to no WEAVE_CIDR''])"
    using e
    by (cases "decode_mutate_encode decliningProxy (exampleRequest ''{}'' ''web'') (JObject [])")
       (simp add: exampleRequest_def decliningProxy_simps example_scan_simps)
  from 1 2 3 4 show ?thesis by (intro conjI)
qed

text \<open>
  The address resolver declines, and still the document that leaves is not the one that
  came: a \<^verbatim>\<open>MacAddress\<close> that is present and empty is gone (the request body
  \<^verbatim>\<open>{"MacAddress":""}\<close> is forwarded as \<^verbatim>\<open>{}\<close>), and so is a key that names no field.
\<close>

theorem empty_MacAddress_counterexample:
  "fst (decode_mutate_encode decliningProxy (exampleRequest ''{\"MacAddress\":\"\"}'' [])
          (JObject [(''MacAddress'', JString [])]))
     = Inr (JObject [])
   \<and> \<not> same_object (JObject []) (JObject [(''MacAddress'', JString [])])
   \<and> InterceptRequest decliningProxy (exampleRequest ''{\"MacAddress\":\"\"}'' [])
       = (Inr \<lparr>Body = Inr ''{}'', ContentLength = 2, query_name = []\<rparr>,
          [Info ''Ignoring container due to no WEAVE_CIDR''])
   \<and> fst (decode_mutate_encode decliningProxy (exampleRequest [] [])
            (JObject [(''MacAddress'', JString ''02:42:ac:11:00:02''), (''Foo'', JObject [])]))
       = Inr (JObject [(''MacAddress'', JString ''02:42:ac:11:00:02'')])
   \<and> \<not> same_object (JObject [(''MacAddress'', JString ''02:42:ac:11:00:02'')])
          (JObject [(''MacAddress'', JString ''02:42:ac:11:00:02''), (''Foo'', JObject [])])"
proof -
  have f: "\<not> equalFold ''HostConfig'' ''Foo''" "\<not> equalFold ''MacAddress'' ''Foo''"
    by (simp_all add: equalFold_def lower_ascii_def)
  have 1: "fst (decode_mutate_encode decliningProxy r (JObject [(''MacAddress'', JString [])]))
     = Inr (JObject [])" for r
    by (simp add: decode_mutate_encode_def fromJSON_examples mutate_declined
          decliningProxy_simps toJSON_examples)
  have 2: "\<not> same_object (JObject []) (JObject [(''MacAddress'', JString [])])"
    by (simp add: same_object_def)
  have 3: "InterceptRequest decliningProxy (exampleRequest ''{\"MacAddress\":\"\"}'' [])
       = (Inr \<lparr>Body = Inr ''{}'', ContentLength = 2, query_name = []\<rparr>,
          [Info ''Ignoring container due to no WEAVE_CIDR''])"
    by (simp add: InterceptRequest_def exampleRequest_def json_Unmarshal_def json_Marshal_def
          decliningProxy_simps example_scan_simps fromJSON_examples mutate_declined
          toJSON_examples)
  have 4: "fst (decode_mutate_encode decliningProxy r
            (JObject [(''MacAddress'', JString ''02:42:ac:11:00:02''), (''Foo'', JObject [])]))
       = Inr (JObject [(''MacAddress'', JString ''02:42:ac:11:00:02'')])" for r
    by (simp add: decode_mutate_encode_def fromJSON_def store_member_def equalFold_examples f
          example_config_store_def mutate_declined decliningProxy_simps toJSON_examples)
  have 5: "\<not> same_object (JObject [(''MacAddress'', JString ''02:42:ac:11:00:02'')])
          (JObject [(''MacAddress'', JString ''02:42:ac:11:00:02''), (''Foo'', JObject [])])"
    by (simp add: same_object_def)
  from 1 2 3 4 5 show ?thesis by (intro conjI)
qed

end
